theory Spec2Isabelle
  imports Main
begin

section \<open>The local HTTPS test server (server.py)\<close>

text \<open>
  server.py is straight-line glue over the operating system and the Python standard
  library: it checks for \<^verbatim>\<open>cert.pem\<close>, shells out to \<^verbatim>\<open>openssl\<close> when the file is
  missing, builds an \<^verbatim>\<open>HTTPServer\<close>, wraps its socket in TLS, prints the URLs and serves.

  The embedding makes every effect explicit. A program is a function from the world to an
  outcome, the list of library calls it attempted (its events, in order, each logged
  whether or not the call returned) and the world after it. The world holds the state of
  \<^verbatim>\<open>cert.pem\<close> in the working directory and the sockets that are open. What each library
  call answers is not decided by the program: it is read from an environment, one field
  per call site of the source (no call site of server.py is executed twice). A call may
  return, raise, or never return. Nothing but the program's own \<^verbatim>\<open>os.system\<close> call changes
  \<^verbatim>\<open>cert.pem\<close> while the program runs.

  Python strings are modelled as \<open>string\<close>, holding the UTF-8 encoding of the text: the
  emoji of the banner are the byte sequences of their code points.
\<close>

subsection \<open>Exceptions and outcomes\<close>

datatype exn =
    KeyboardInterrupt
  | SystemExit
  | OSError
  | FileNotFoundError
  | PermissionError
  | SSLError
  | AttributeError
  | UnicodeEncodeError
  | OtherException string

datatype 'a outcome =
    Return 'a
  | Raise exn
  | Hang

subsection \<open>The world\<close>

datatype file_state = Absent | Unreadable | Readable

datatype event =
    Print string
  | Path_exists string
  | System string
  | HTTPServer_init "string \<times> nat"
  | Wrap_socket nat string bool
  | Socket_new
  | Socket_connect nat "string \<times> nat"
  | Socket_getsockname nat
  | Socket_close nat
  | Serve_forever nat

record world =
  cert_pem :: file_state
  open_sockets :: "nat list"
  next_socket :: nat

text \<open>
  The environment: the answer of every call site. \<open>print_out\<close> is indexed by the source
  line of the \<^verbatim>\<open>print\<close> statement. \<open>system_cert\<close> is the state in which the external tool
  leaves \<^verbatim>\<open>cert.pem\<close>; \<open>system_out\<close> is its exit status.
\<close>

record env =
  print_out :: "nat \<Rightarrow> unit outcome"
  exists_out :: "unit outcome"
  system_out :: "int outcome"
  system_cert :: file_state
  httpserver_out :: "unit outcome"
  wrap_socket_out :: "unit outcome"
  socket_out :: "unit outcome"
  connect_out :: "unit outcome"
  getsockname_out :: "(string \<times> nat) outcome"
  close_out :: "unit outcome"
  serve_forever_out :: "unit outcome"

subsection \<open>Sequencing, exceptions, \<^verbatim>\<open>try\<close>/\<^verbatim>\<open>except\<close>\<close>

type_synonym 'a prog = "world \<Rightarrow> 'a outcome \<times> event list \<times> world"

definition return_prog :: "'a \<Rightarrow> 'a prog" where
  "return_prog x w = (Return x, [], w)"

definition bind_prog :: "'a prog \<Rightarrow> ('a \<Rightarrow> 'b prog) \<Rightarrow> 'b prog" where
  "bind_prog m f w =
     (case m w of
        (Return x, es, w') \<Rightarrow> (case f x w' of (r, es', w'') \<Rightarrow> (r, es @ es', w''))
      | (Raise e, es, w') \<Rightarrow> (Raise e, es, w')
      | (Hang, es, w') \<Rightarrow> (Hang, es, w'))"

text \<open>A block of statements, run in order; the first one that does not return ends it.\<close>

fun block :: "unit prog list \<Rightarrow> unit prog" where
  "block [] = return_prog ()"
| "block (s # ss) = bind_prog s (\<lambda>_. block ss)"

text \<open>
  \<^verbatim>\<open>try: body except ...: handler\<close>. The handler table maps a raised exception to the
  handler that catches it, or to \<open>None\<close> when no clause matches and it propagates.
\<close>

definition try_except :: "'a prog \<Rightarrow> (exn \<Rightarrow> 'a prog option) \<Rightarrow> 'a prog" where
  "try_except body handlers w =
     (case body w of
        (Raise e, es, w') \<Rightarrow>
          (case handlers e of
             Some h \<Rightarrow> (case h w' of (r, es', w'') \<Rightarrow> (r, es @ es', w''))
           | None \<Rightarrow> (Raise e, es, w'))
      | (Return x, es, w') \<Rightarrow> (Return x, es, w')
      | (Hang, es, w') \<Rightarrow> (Hang, es, w'))"

text \<open>The three components of a run.\<close>

definition outcome_of :: "'a prog \<Rightarrow> world \<Rightarrow> 'a outcome" where
  "outcome_of p w = fst (p w)"

definition events_of :: "'a prog \<Rightarrow> world \<Rightarrow> event list" where
  "events_of p w = fst (snd (p w))"

definition world_of :: "'a prog \<Rightarrow> world \<Rightarrow> world" where
  "world_of p w = snd (snd (p w))"

subsection \<open>The library calls\<close>

definition py_print :: "env \<Rightarrow> nat \<Rightarrow> string \<Rightarrow> unit prog" where
  "py_print env line s w = (print_out env line, [Print s], w)"

text \<open>\<^verbatim>\<open>os.path.exists\<close>: true for any existing file, readable or not.\<close>

definition os_path_exists :: "env \<Rightarrow> string \<Rightarrow> bool prog" where
  "os_path_exists env path w =
     (case exists_out env of
        Return _ \<Rightarrow> (Return (cert_pem w \<noteq> Absent), [Path_exists path], w)
      | Raise e \<Rightarrow> (Raise e, [Path_exists path], w)
      | Hang \<Rightarrow> (Hang, [Path_exists path], w))"

text \<open>\<^verbatim>\<open>os.system\<close>: runs the command; the tool leaves \<^verbatim>\<open>cert.pem\<close> in the state the
  environment says; the exit status is the return value.\<close>

definition os_system :: "env \<Rightarrow> string \<Rightarrow> int prog" where
  "os_system env cmd w = (system_out env, [System cmd], w\<lparr>cert_pem := system_cert env\<rparr>)"

record httpd =
  server_address :: "string \<times> nat"
  socket :: nat

text \<open>
  The address a listening socket reports once bound (\<^verbatim>\<open>getsockname\<close>): the empty host, which
  binds all interfaces, comes back as 0.0.0.0. (A numeric host and a port other than 0
  come back as given; host names and port 0 are not modelled, \<^verbatim>\<open>main\<close> passes neither.)
\<close>

definition bound_address :: "string \<times> nat \<Rightarrow> string \<times> nat" where
  "bound_address addr = (if fst addr = '''' then ''0.0.0.0'' else fst addr, snd addr)"

text \<open>\<^verbatim>\<open>HTTPServer(server_address, handler)\<close>: creates, binds and activates the listening
  socket, and replaces its \<^verbatim>\<open>server_address\<close> by the address the bound socket reports;
  when that fails the constructor closes the socket and re-raises.\<close>

definition HTTPServer :: "env \<Rightarrow> string \<times> nat \<Rightarrow> httpd prog" where
  "HTTPServer env addr w =
     (case httpserver_out env of
        Return _ \<Rightarrow>
          (Return \<lparr>server_address = bound_address addr, socket = next_socket w\<rparr>,
           [HTTPServer_init addr],
           w\<lparr>open_sockets := next_socket w # open_sockets w,
             next_socket := Suc (next_socket w)\<rparr>)
      | Raise e \<Rightarrow> (Raise e, [HTTPServer_init addr], w)
      | Hang \<Rightarrow> (Hang, [HTTPServer_init addr], w))"

text \<open>\<^verbatim>\<open>ssl.wrap_socket(sock, certfile=..., server_side=...)\<close>: loads the certificate chain
  from the file, so it raises when the file is missing or cannot be read; otherwise the
  environment decides. The result is a new socket object that takes over the old one.
  (\<^verbatim>\<open>./cert.pem\<close> and \<^verbatim>\<open>cert.pem\<close> name the same file of the working directory, the one
  the world records.)\<close>

definition ssl_wrap_socket :: "env \<Rightarrow> nat \<Rightarrow> string \<Rightarrow> bool \<Rightarrow> nat prog" where
  "ssl_wrap_socket env s certfile server_side w =
     (case cert_pem w of
        Absent \<Rightarrow> (Raise FileNotFoundError, [Wrap_socket s certfile server_side], w)
      | Unreadable \<Rightarrow> (Raise PermissionError, [Wrap_socket s certfile server_side], w)
      | Readable \<Rightarrow>
          (case wrap_socket_out env of
             Return _ \<Rightarrow>
               (Return (next_socket w),
                [Wrap_socket s certfile server_side],
                w\<lparr>open_sockets := next_socket w # removeAll s (open_sockets w),
                  next_socket := Suc (next_socket w)\<rparr>)
           | Raise e \<Rightarrow> (Raise e, [Wrap_socket s certfile server_side], w)
           | Hang \<Rightarrow> (Hang, [Wrap_socket s certfile server_side], w)))"

definition socket_socket :: "env \<Rightarrow> nat prog" where
  "socket_socket env w =
     (case socket_out env of
        Return _ \<Rightarrow>
          (Return (next_socket w),
           [Socket_new],
           w\<lparr>open_sockets := next_socket w # open_sockets w,
             next_socket := Suc (next_socket w)\<rparr>)
      | Raise e \<Rightarrow> (Raise e, [Socket_new], w)
      | Hang \<Rightarrow> (Hang, [Socket_new], w))"

definition socket_connect :: "env \<Rightarrow> nat \<Rightarrow> string \<times> nat \<Rightarrow> unit prog" where
  "socket_connect env s addr w = (connect_out env, [Socket_connect s addr], w)"

definition socket_getsockname :: "env \<Rightarrow> nat \<Rightarrow> (string \<times> nat) prog" where
  "socket_getsockname env s w = (getsockname_out env, [Socket_getsockname s], w)"

definition socket_close :: "env \<Rightarrow> nat \<Rightarrow> unit prog" where
  "socket_close env s w =
     (case close_out env of
        Return _ \<Rightarrow>
          (Return (), [Socket_close s], w\<lparr>open_sockets := removeAll s (open_sockets w)\<rparr>)
      | Raise e \<Rightarrow> (Raise e, [Socket_close s], w)
      | Hang \<Rightarrow> (Hang, [Socket_close s], w))"

definition serve_forever :: "env \<Rightarrow> httpd \<Rightarrow> unit prog" where
  "serve_forever env h w = (serve_forever_out env, [Serve_forever (socket h)], w)"

subsection \<open>Python's \<^verbatim>\<open>str\<close> of a non-negative integer\<close>

definition digit_char :: "nat \<Rightarrow> char" where
  "digit_char d = ''0123456789'' ! d"

fun str_nat :: "nat \<Rightarrow> string" where
  "str_nat n = (if n < 10 then [digit_char n] else str_nat (n div 10) @ [digit_char (n mod 10)])"

subsection \<open>\<^verbatim>\<open>get_local_ip\<close> (server.py, lines 13 to 22)\<close>

definition get_local_ip :: "env \<Rightarrow> string prog" where
  "get_local_ip env =
     try_except
       (bind_prog (socket_socket env) (\<lambda>s.
        bind_prog (socket_connect env s (''8.8.8.8'', 80)) (\<lambda>_.
        bind_prog (socket_getsockname env s) (\<lambda>addr.
        let ip = fst addr in
        bind_prog (socket_close env s) (\<lambda>_.
        return_prog ip)))))
       (\<lambda>_. Some (return_prog ''localhost''))"

subsection \<open>\<^verbatim>\<open>main\<close> (server.py, lines 24 to 60)\<close>

definition openssl_command :: string where
  "openssl_command =
     ''openssl req -new -x509 -keyout cert.pem -out cert.pem -days 365 -nodes -subj \"/CN=localhost\"''"

definition main :: "env \<Rightarrow> unit prog" where
  "main env =
     (let PORT = 8000 in
      block [
        py_print env 27 ([CHR 0xF0, CHR 0x9F, CHR 0x8E, CHR 0xAC]
                          @ '' Head Tilt YouTube Controller - Local Server''),
        py_print env 28 (replicate 50 CHR ''=''),
        bind_prog (os_path_exists env ''cert.pem'') (\<lambda>ex.
          if \<not> ex then
            block [
              py_print env 32 ([CHR 0x0A, CHR 0xF0, CHR 0x9F, CHR 0x93, CHR 0x9D]
                                @ '' Generating self-signed certificate...''),
              py_print env 33
                (''   (You'' @ [CHR 0x27] @ ''ll need to accept the security warning in your browser)''),
              bind_prog (os_system env openssl_command) (\<lambda>_. return_prog ())]
          else return_prog ()),
        bind_prog (HTTPServer env ('''', PORT)) (\<lambda>httpd.
        bind_prog (ssl_wrap_socket env (socket httpd) ''./cert.pem'' True) (\<lambda>s.
        let httpd = httpd\<lparr>socket := s\<rparr> in
        bind_prog (get_local_ip env) (\<lambda>local_ip.
        block [
          py_print env 47 ([CHR 0x0A, CHR 0xE2, CHR 0x9C, CHR 0x85] @ '' Server started!''),
          py_print env 48 ([CHR 0x0A, CHR 0xF0, CHR 0x9F, CHR 0x93, CHR 0xB1]
                            @ '' Access on this device:''),
          py_print env 49 (''   https://localhost:'' @ str_nat PORT),
          py_print env 50 ([CHR 0x0A, CHR 0xF0, CHR 0x9F, CHR 0x93, CHR 0xB1]
                            @ '' Access on mobile (same WiFi):''),
          py_print env 51 (''   https://'' @ local_ip @ '':'' @ str_nat PORT),
          py_print env 52 ([CHR 0x0A, CHR 0xE2, CHR 0x9A, CHR 0xA0, CHR 0xEF, CHR 0xB8, CHR 0x8F]
                            @ ''  Note: You'' @ [CHR 0x27]
                            @ ''ll need to accept the self-signed certificate warning''),
          py_print env 53 (''    in your browser (this is normal for local development)''
                            @ [CHR 0x0A]),
          py_print env 54 (''Press Ctrl+C to stop the server'' @ [CHR 0x0A]),
          py_print env 55 (replicate 50 CHR ''=''),
          try_except (serve_forever env httpd)
            (\<lambda>e. if e = KeyboardInterrupt
                  then Some (py_print env 60 ([CHR 0x0A, CHR 0x0A, CHR 0xF0, CHR 0x9F, CHR 0x91, CHR 0x8B]
                                               @ '' Server stopped''))
                  else None)])))])"

text \<open>The world in which the program starts: no socket open.\<close>

definition initial_world :: "file_state \<Rightarrow> world" where
  "initial_world c = \<lparr>cert_pem = c, open_sockets = [], next_socket = 0\<rparr>"

subsection \<open>The statement groups of \<^verbatim>\<open>main\<close>\<close>

text \<open>
  The groups of statements of \<^verbatim>\<open>main\<close>, as its comments delimit them, each under a
  name of its own, so that what holds at a given line can be stated. \<open>main_segments\<close>
  below proves that \<^verbatim>\<open>main\<close> is these groups run in order.
\<close>

text \<open>Lines 27 and 28: the title.\<close>

definition banner :: "env \<Rightarrow> unit prog" where
  "banner env =
     block [
       py_print env 27 ([CHR 0xF0, CHR 0x9F, CHR 0x8E, CHR 0xAC]
                         @ '' Head Tilt YouTube Controller - Local Server''),
       py_print env 28 (replicate 50 CHR ''='')]"

text \<open>Lines 31 to 34: \<^verbatim>\<open># Check if certificate exists, if not create one\<close>.\<close>

definition provision_certificate :: "env \<Rightarrow> unit prog" where
  "provision_certificate env =
     bind_prog (os_path_exists env ''cert.pem'') (\<lambda>ex.
       if \<not> ex then
         block [
           py_print env 32 ([CHR 0x0A, CHR 0xF0, CHR 0x9F, CHR 0x93, CHR 0x9D]
                             @ '' Generating self-signed certificate...''),
           py_print env 33
             (''   (You'' @ [CHR 0x27] @ ''ll need to accept the security warning in your browser)''),
           bind_prog (os_system env openssl_command) (\<lambda>_. return_prog ())]
       else return_prog ())"

text \<open>Lines 47 to 55: the texts of the startup report, and the statements printing them.\<close>

definition report_lines :: "nat \<Rightarrow> string \<Rightarrow> string list" where
  "report_lines PORT local_ip =
     [[CHR 0x0A, CHR 0xE2, CHR 0x9C, CHR 0x85] @ '' Server started!'',
      [CHR 0x0A, CHR 0xF0, CHR 0x9F, CHR 0x93, CHR 0xB1] @ '' Access on this device:'',
      ''   https://localhost:'' @ str_nat PORT,
      [CHR 0x0A, CHR 0xF0, CHR 0x9F, CHR 0x93, CHR 0xB1] @ '' Access on mobile (same WiFi):'',
      ''   https://'' @ local_ip @ '':'' @ str_nat PORT,
      [CHR 0x0A, CHR 0xE2, CHR 0x9A, CHR 0xA0, CHR 0xEF, CHR 0xB8, CHR 0x8F]
        @ ''  Note: You'' @ [CHR 0x27] @ ''ll need to accept the self-signed certificate warning'',
      ''    in your browser (this is normal for local development)'' @ [CHR 0x0A],
      ''Press Ctrl+C to stop the server'' @ [CHR 0x0A],
      replicate 50 CHR ''='']"

definition report_source_lines :: "nat list" where
  "report_source_lines = [47, 48, 49, 50, 51, 52, 53, 54, 55]"

definition startup_report :: "env \<Rightarrow> nat \<Rightarrow> string \<Rightarrow> unit prog" where
  "startup_report env PORT local_ip =
     block (map (\<lambda>(line, s). py_print env line s)
              (zip report_source_lines (report_lines PORT local_ip)))"

text \<open>Lines 57 to 60: the serve loop and its one handler.\<close>

definition farewell :: string where
  "farewell = [CHR 0x0A, CHR 0x0A, CHR 0xF0, CHR 0x9F, CHR 0x91, CHR 0x8B] @ '' Server stopped''"

definition serve :: "env \<Rightarrow> httpd \<Rightarrow> unit prog" where
  "serve env httpd =
     try_except (serve_forever env httpd)
       (\<lambda>e. if e = KeyboardInterrupt then Some (py_print env 60 farewell) else None)"

text \<open>Lines 25 to 38: everything that precedes the TLS wrapping of line 41.\<close>

definition bring_up :: "env \<Rightarrow> httpd prog" where
  "bring_up env =
     bind_prog (banner env) (\<lambda>_.
     bind_prog (provision_certificate env) (\<lambda>_.
     HTTPServer env ('''', 8000)))"

text \<open>Lines 25 to 43: the server constructed, bound and wrapped.\<close>

definition secure_server :: "env \<Rightarrow> httpd prog" where
  "secure_server env =
     bind_prog (bring_up env) (\<lambda>httpd.
     bind_prog (ssl_wrap_socket env (socket httpd) ''./cert.pem'' True) (\<lambda>s.
     return_prog (httpd\<lparr>socket := s\<rparr>)))"

text \<open>Lines 25 to 55: the startup, everything that precedes the serve loop.\<close>

definition startup :: "env \<Rightarrow> httpd prog" where
  "startup env =
     bind_prog (secure_server env) (\<lambda>httpd.
     bind_prog (get_local_ip env) (\<lambda>local_ip.
     bind_prog (startup_report env 8000 local_ip) (\<lambda>_.
     return_prog httpd)))"

text \<open>Lines 62 and 63: the script calls \<^verbatim>\<open>main()\<close>; \<^verbatim>\<open>sys.argv\<close> is never read.\<close>

definition script :: "string list \<Rightarrow> env \<Rightarrow> unit prog" where
  "script argv env = main env"

subsection \<open>Notions used in the statements\<close>

text \<open>How a call ended.\<close>

fun returns :: "'a outcome \<Rightarrow> bool" where
  "returns (Return _) = True"
| "returns (Raise _) = False"
| "returns Hang = False"

fun raises :: "'a outcome \<Rightarrow> bool" where
  "raises (Return _) = False"
| "raises (Raise _) = True"
| "raises Hang = False"

fun void :: "'a outcome \<Rightarrow> unit outcome" where
  "void (Return _) = Return ()"
| "void (Raise e) = Raise e"
| "void Hang = Hang"

text \<open>
  Some step of the address discovery of \<^verbatim>\<open>get_local_ip\<close> raises: the socket creation, or
  the connect after it, or reading the bound address after those, or the close after those.
\<close>

definition discovery_fails :: "env \<Rightarrow> bool" where
  "discovery_fails env \<longleftrightarrow>
     raises (socket_out env)
     \<or> returns (socket_out env) \<and> raises (connect_out env)
     \<or> returns (socket_out env) \<and> returns (connect_out env) \<and> raises (getsockname_out env)
     \<or> returns (socket_out env) \<and> returns (connect_out env) \<and> returns (getsockname_out env)
         \<and> raises (close_out env)"

text \<open>
  The certificate provisioning of lines 31 to 34 gets as far as the \<^verbatim>\<open>os.system\<close> call: the
  existence check returned and found no file, and the two prints before the call returned.
\<close>

definition generation_reached :: "env \<Rightarrow> world \<Rightarrow> bool" where
  "generation_reached env w \<longleftrightarrow>
     returns (exists_out env) \<and> cert_pem w = Absent
     \<and> returns (print_out env 32) \<and> returns (print_out env 33)"

text \<open>
  A concrete environment, for the examples: every call returns, the external tool exits
  with status 0 and leaves a readable certificate, the local address is 192.168.1.20, and
  the operator interrupts the serve loop.
\<close>

definition env_ok :: env where
  "env_ok =
     \<lparr>print_out = (\<lambda>_. Return ()),
      exists_out = Return (),
      system_out = Return 0,
      system_cert = Readable,
      httpserver_out = Return (),
      wrap_socket_out = Return (),
      socket_out = Return (),
      connect_out = Return (),
      getsockname_out = Return (''192.168.1.20'', 54321),
      close_out = Return (),
      serve_forever_out = Raise KeyboardInterrupt\<rparr>"

text \<open>How a sequence of statements ends: as its first statement that does not return.\<close>

fun first_nonreturn :: "unit outcome list \<Rightarrow> unit outcome" where
  "first_nonreturn [] = Return ()"
| "first_nonreturn (out # rest) = (if returns out then first_nonreturn rest else out)"

text \<open>
  The words of a command line as the shell that \<^verbatim>\<open>os.system\<close> starts splits it: at blanks
  outside double quotes, the quotes themselves removed. (Enough for a command without
  escapes, single quotes or empty quoted words, as the one of line 34.) \<open>option_value\<close> is
  the word that follows a flag.
\<close>

fun shell_split :: "bool \<Rightarrow> string \<Rightarrow> string \<Rightarrow> string list" where
  "shell_split quoted word [] = (if word = [] then [] else [word])"
| "shell_split quoted word (c # cs) =
     (if c = CHR 0x22 then shell_split (\<not> quoted) word cs
      else if c = CHR '' '' \<and> \<not> quoted
        then (if word = [] then shell_split quoted [] cs else word # shell_split quoted [] cs)
      else shell_split quoted (word @ [c]) cs)"

definition shell_words :: "string \<Rightarrow> string list" where
  "shell_words cmd = shell_split False [] cmd"

fun option_value :: "string \<Rightarrow> string list \<Rightarrow> string option" where
  "option_value flag (a # b # rest) =
     (if a = flag then Some b else option_value flag (b # rest))"
| "option_value flag _ = None"

text \<open>
  The state of \<^verbatim>\<open>cert.pem\<close> when line 41 is reached: as at startup when the file existed
  then, and otherwise as the external tool left it.
\<close>

definition cert_at_wrap :: "env \<Rightarrow> world \<Rightarrow> file_state" where
  "cert_at_wrap env w = (if cert_pem w = Absent then system_cert env else cert_pem w)"

text \<open>
  How each statement of \<^verbatim>\<open>main\<close> ends when it is reached, in program order: the prints and
  calls end as the environment says, \<^verbatim>\<open>ssl.wrap_socket\<close> as the certificate file allows,
  the call of \<^verbatim>\<open>get_local_ip\<close> as that function does (its outcome is the same in every
  world, see \<open>get_local_ip_outcome\<close>), and the \<^verbatim>\<open>try\<close> statement of lines 57 to 60 as
  \<^verbatim>\<open>serve_forever\<close> does, except that a KeyboardInterrupt is replaced by the outcome of the
  farewell print.
\<close>

definition statement_outcomes :: "env \<Rightarrow> world \<Rightarrow> unit outcome list" where
  "statement_outcomes env w =
     [print_out env 27, print_out env 28, exists_out env]
     @ (if cert_pem w = Absent
        then [print_out env 32, print_out env 33, void (system_out env)] else [])
     @ [httpserver_out env,
        (case cert_at_wrap env w of
           Absent \<Rightarrow> Raise FileNotFoundError
         | Unreadable \<Rightarrow> Raise PermissionError
         | Readable \<Rightarrow> wrap_socket_out env),
        void (outcome_of (get_local_ip env) w)]
     @ map (print_out env) report_source_lines
     @ [if serve_forever_out env = Raise KeyboardInterrupt then print_out env 60
        else serve_forever_out env]"

text \<open>
  An environment in which the external tool is not installed: the shell exits with
  status 127 (\<^verbatim>\<open>os.system\<close> returns 32512) and no \<^verbatim>\<open>cert.pem\<close> is produced.
\<close>

definition env_no_tool :: env where
  "env_no_tool = env_ok\<lparr>system_out := Return 32512, system_cert := Absent\<rparr>"


fun resolves :: "event \<Rightarrow> bool" where
  "resolves Socket_new = True"
| "resolves (Socket_connect _ _) = True"
| "resolves (Socket_getsockname _) = True"
| "resolves (Socket_close _) = True"
| "resolves _ = False"

text \<open>
  How the statements of \<^verbatim>\<open>main\<close> that precede the server construction of line 38 end, in
  program order, and how those that precede the serve loop of line 58 end (the same list as
  \<open>statement_outcomes\<close> without its last entry, see \<open>statement_outcomes_split\<close>).
\<close>

definition before_construction :: "env \<Rightarrow> world \<Rightarrow> unit outcome list" where
  "before_construction env w =
     [print_out env 27, print_out env 28, exists_out env]
     @ (if cert_pem w = Absent
        then [print_out env 32, print_out env 33, void (system_out env)] else [])"

definition before_serving :: "env \<Rightarrow> world \<Rightarrow> unit outcome list" where
  "before_serving env w =
     before_construction env w
     @ [httpserver_out env,
        (case cert_at_wrap env w of
           Absent \<Rightarrow> Raise FileNotFoundError
         | Unreadable \<Rightarrow> Raise PermissionError
         | Readable \<Rightarrow> wrap_socket_out env),
        void (outcome_of (get_local_ip env) w)]
     @ map (print_out env) report_source_lines"

section \<open>Properties\<close>

subsection \<open>The port as text\<close>

lemma str_nat_8000: "str_nat 8000 = ''8000''"
  by (simp add: digit_char_def)

declare str_nat.simps [simp del]

subsection \<open>Sequencing laws\<close>

lemma bind_prog_assoc:
  "bind_prog (bind_prog m f) g = bind_prog m (\<lambda>x. bind_prog (f x) g)"
  by (rule ext) (simp add: bind_prog_def split: prod.splits outcome.splits)

lemma bind_prog_return_left: "bind_prog (return_prog x) f = f x"
  by (rule ext) (simp add: bind_prog_def return_prog_def split: prod.splits)

lemma bind_prog_return_unit: "bind_prog m (\<lambda>_. return_prog ()) = (m :: unit prog)"
  by (rule ext) (simp add: bind_prog_def return_prog_def split: prod.splits outcome.splits)

lemma bind_prog_return_right: "bind_prog m return_prog = m"
  by (rule ext) (simp add: bind_prog_def return_prog_def split: prod.splits outcome.splits)

text \<open>\<^verbatim>\<open>main\<close> is its statement groups, run in order.\<close>

lemma main_segments:
  "main env =
     bind_prog (banner env) (\<lambda>_.
     bind_prog (provision_certificate env) (\<lambda>_.
     bind_prog (HTTPServer env ('''', 8000)) (\<lambda>httpd.
     bind_prog (ssl_wrap_socket env (socket httpd) ''./cert.pem'' True) (\<lambda>s.
     bind_prog (get_local_ip env) (\<lambda>local_ip.
     bind_prog (startup_report env 8000 local_ip) (\<lambda>_.
     serve env (httpd\<lparr>socket := s\<rparr>)))))))"
  unfolding main_def banner_def provision_certificate_def startup_report_def serve_def
    report_lines_def report_source_lines_def farewell_def Let_def
  by (simp add: bind_prog_assoc bind_prog_return_left bind_prog_return_unit bind_prog_return_right cong: if_cong)

lemma main_startup: "main env = bind_prog (startup env) (serve env)"
  unfolding main_segments startup_def secure_server_def bring_up_def
  by (simp add: bind_prog_assoc bind_prog_return_left)


lemma main_bring_up:
  "main env =
     bind_prog (bring_up env) (\<lambda>httpd.
     bind_prog (ssl_wrap_socket env (socket httpd) ''./cert.pem'' True) (\<lambda>s.
     bind_prog (get_local_ip env) (\<lambda>local_ip.
     bind_prog (startup_report env 8000 local_ip) (\<lambda>_.
     serve env (httpd\<lparr>socket := s\<rparr>)))))"
  unfolding main_segments bring_up_def
  by (simp add: bind_prog_assoc bind_prog_return_left)

subsection \<open>What each call and each construct does\<close>

lemma outcome_of_return [simp]: "outcome_of (return_prog x) w = Return x"
  and events_of_return [simp]: "events_of (return_prog x) w = []"
  and world_of_return [simp]: "world_of (return_prog x) w = w"
  by (simp_all add: outcome_of_def events_of_def world_of_def return_prog_def)

lemma outcome_of_bind:
  "outcome_of (bind_prog m f) w =
     (case outcome_of m w of
        Return x \<Rightarrow> outcome_of (f x) (world_of m w)
      | Raise e \<Rightarrow> Raise e
      | Hang \<Rightarrow> Hang)"
  by (simp add: outcome_of_def world_of_def bind_prog_def split: prod.splits outcome.splits)

lemma events_of_bind:
  "events_of (bind_prog m f) w =
     events_of m w @
     (case outcome_of m w of
        Return x \<Rightarrow> events_of (f x) (world_of m w)
      | Raise e \<Rightarrow> []
      | Hang \<Rightarrow> [])"
  by (simp add: outcome_of_def events_of_def world_of_def bind_prog_def
           split: prod.splits outcome.splits)

lemma world_of_bind:
  "world_of (bind_prog m f) w =
     (case outcome_of m w of
        Return x \<Rightarrow> world_of (f x) (world_of m w)
      | Raise e \<Rightarrow> world_of m w
      | Hang \<Rightarrow> world_of m w)"
  by (simp add: outcome_of_def world_of_def bind_prog_def split: prod.splits outcome.splits)

lemmas run_bind = outcome_of_bind events_of_bind world_of_bind

lemma outcome_of_try_except:
  "outcome_of (try_except body handlers) w =
     (case outcome_of body w of
        Raise e \<Rightarrow> (case handlers e of Some h \<Rightarrow> outcome_of h (world_of body w) | None \<Rightarrow> Raise e)
      | Return x \<Rightarrow> Return x
      | Hang \<Rightarrow> Hang)"
  by (simp add: outcome_of_def world_of_def try_except_def
           split: prod.splits outcome.splits option.splits)

lemma events_of_try_except:
  "events_of (try_except body handlers) w =
     events_of body w @
     (case outcome_of body w of
        Raise e \<Rightarrow> (case handlers e of Some h \<Rightarrow> events_of h (world_of body w) | None \<Rightarrow> [])
      | Return x \<Rightarrow> []
      | Hang \<Rightarrow> [])"
  by (simp add: outcome_of_def events_of_def world_of_def try_except_def
           split: prod.splits outcome.splits option.splits)

lemma world_of_try_except:
  "world_of (try_except body handlers) w =
     (case outcome_of body w of
        Raise e \<Rightarrow> (case handlers e of Some h \<Rightarrow> world_of h (world_of body w) | None \<Rightarrow> world_of body w)
      | Return x \<Rightarrow> world_of body w
      | Hang \<Rightarrow> world_of body w)"
  by (simp add: outcome_of_def world_of_def try_except_def
           split: prod.splits outcome.splits option.splits)

lemmas run_try = outcome_of_try_except events_of_try_except world_of_try_except

lemma py_print_run [simp]:
  "outcome_of (py_print env l s) w = print_out env l"
  "events_of (py_print env l s) w = [Print s]"
  "world_of (py_print env l s) w = w"
  by (simp_all add: outcome_of_def events_of_def world_of_def py_print_def)

lemma os_path_exists_run:
  "outcome_of (os_path_exists env p) w =
     (case exists_out env of
        Return _ \<Rightarrow> Return (cert_pem w \<noteq> Absent) | Raise e \<Rightarrow> Raise e | Hang \<Rightarrow> Hang)"
  "events_of (os_path_exists env p) w = [Path_exists p]"
  "world_of (os_path_exists env p) w = w"
  by (simp_all add: outcome_of_def events_of_def world_of_def os_path_exists_def
        split: outcome.splits)

lemma os_system_run [simp]:
  "outcome_of (os_system env cmd) w = system_out env"
  "events_of (os_system env cmd) w = [System cmd]"
  "world_of (os_system env cmd) w = w\<lparr>cert_pem := system_cert env\<rparr>"
  by (simp_all add: outcome_of_def events_of_def world_of_def os_system_def)

lemma bound_address_any [simp]: "bound_address ('''', 8000) = (''0.0.0.0'', 8000)"
  by (simp add: bound_address_def)

lemma HTTPServer_run:
  "outcome_of (HTTPServer env addr) w =
     (case httpserver_out env of
        Return _ \<Rightarrow> Return \<lparr>server_address = bound_address addr, socket = next_socket w\<rparr>
      | Raise e \<Rightarrow> Raise e | Hang \<Rightarrow> Hang)"
  "events_of (HTTPServer env addr) w = [HTTPServer_init addr]"
  "world_of (HTTPServer env addr) w =
     (case httpserver_out env of
        Return _ \<Rightarrow> w\<lparr>open_sockets := next_socket w # open_sockets w,
                       next_socket := Suc (next_socket w)\<rparr>
      | Raise e \<Rightarrow> w | Hang \<Rightarrow> w)"
  by (simp_all add: outcome_of_def events_of_def world_of_def HTTPServer_def
        split: outcome.splits)

lemma ssl_wrap_socket_events:
  "events_of (ssl_wrap_socket env s c b) w = [Wrap_socket s c b]"
  by (simp add: events_of_def ssl_wrap_socket_def split: outcome.splits file_state.splits)

lemma ssl_wrap_socket_outcome:
  "outcome_of (ssl_wrap_socket env s c b) w =
     (case cert_pem w of
        Absent \<Rightarrow> Raise FileNotFoundError
      | Unreadable \<Rightarrow> Raise PermissionError
      | Readable \<Rightarrow>
          (case wrap_socket_out env of
             Return _ \<Rightarrow> Return (next_socket w) | Raise e \<Rightarrow> Raise e | Hang \<Rightarrow> Hang))"
  by (simp add: outcome_of_def ssl_wrap_socket_def split: outcome.splits file_state.splits)

lemma ssl_wrap_socket_cert:
  "cert_pem (world_of (ssl_wrap_socket env s c b) w) = cert_pem w"
  by (simp add: world_of_def ssl_wrap_socket_def split: outcome.splits file_state.splits)

lemma socket_socket_run:
  "outcome_of (socket_socket env) w =
     (case socket_out env of
        Return _ \<Rightarrow> Return (next_socket w) | Raise e \<Rightarrow> Raise e | Hang \<Rightarrow> Hang)"
  "events_of (socket_socket env) w = [Socket_new]"
  "world_of (socket_socket env) w =
     (case socket_out env of
        Return _ \<Rightarrow> w\<lparr>open_sockets := next_socket w # open_sockets w,
                       next_socket := Suc (next_socket w)\<rparr>
      | Raise e \<Rightarrow> w | Hang \<Rightarrow> w)"
  by (simp_all add: outcome_of_def events_of_def world_of_def socket_socket_def
        split: outcome.splits)

lemma socket_connect_run [simp]:
  "outcome_of (socket_connect env s addr) w = connect_out env"
  "events_of (socket_connect env s addr) w = [Socket_connect s addr]"
  "world_of (socket_connect env s addr) w = w"
  by (simp_all add: outcome_of_def events_of_def world_of_def socket_connect_def)

lemma socket_getsockname_run [simp]:
  "outcome_of (socket_getsockname env s) w = getsockname_out env"
  "events_of (socket_getsockname env s) w = [Socket_getsockname s]"
  "world_of (socket_getsockname env s) w = w"
  by (simp_all add: outcome_of_def events_of_def world_of_def socket_getsockname_def)

lemma socket_close_run:
  "outcome_of (socket_close env s) w = close_out env"
  "events_of (socket_close env s) w = [Socket_close s]"
  "world_of (socket_close env s) w =
     (case close_out env of
        Return _ \<Rightarrow> w\<lparr>open_sockets := removeAll s (open_sockets w)\<rparr>
      | Raise e \<Rightarrow> w | Hang \<Rightarrow> w)"
  by (simp_all add: outcome_of_def events_of_def world_of_def socket_close_def
        split: outcome.splits)

lemma serve_forever_run [simp]:
  "outcome_of (serve_forever env h) w = serve_forever_out env"
  "events_of (serve_forever env h) w = [Serve_forever (socket h)]"
  "world_of (serve_forever env h) w = w"
  by (simp_all add: outcome_of_def events_of_def world_of_def serve_forever_def)

subsection \<open>The address discovery\<close>

lemma get_local_ip_outcome:
  "outcome_of (get_local_ip env) w =
     (case socket_out env of
        Return _ \<Rightarrow>
          (case connect_out env of
             Return _ \<Rightarrow>
               (case getsockname_out env of
                  Return a \<Rightarrow>
                    (case close_out env of
                       Return _ \<Rightarrow> Return (fst a)
                     | Raise e \<Rightarrow> Return ''localhost''
                     | Hang \<Rightarrow> Hang)
                | Raise e \<Rightarrow> Return ''localhost''
                | Hang \<Rightarrow> Hang)
           | Raise e \<Rightarrow> Return ''localhost''
           | Hang \<Rightarrow> Hang)
      | Raise e \<Rightarrow> Return ''localhost''
      | Hang \<Rightarrow> Hang)"
  by (cases "socket_out env"; cases "connect_out env"; cases "getsockname_out env";
      cases "close_out env")
     (simp_all add: get_local_ip_def run_try run_bind socket_socket_run socket_close_run Let_def)

text \<open>
  Claim C1. Whenever a step of the address discovery raises (socket creation, connect,
  reading the bound address, or close), \<^verbatim>\<open>get_local_ip\<close> returns the literal
  \<^verbatim>\<open>"localhost"\<close>; and in no execution at all does \<^verbatim>\<open>get_local_ip\<close> raise to its caller.
\<close>

theorem get_local_ip_fallback:
  "(discovery_fails env \<longrightarrow> outcome_of (get_local_ip env) w = Return ''localhost'')
   \<and> (\<forall>e. outcome_of (get_local_ip env) w \<noteq> Raise e)"
  by (cases "socket_out env"; cases "connect_out env"; cases "getsockname_out env";
      cases "close_out env")
     (simp_all add: get_local_ip_outcome discovery_fails_def)

theorem get_local_ip_fallback_witness:
  "discovery_fails (env_ok\<lparr>connect_out := Raise OSError\<rparr>)
   \<and> outcome_of (get_local_ip (env_ok\<lparr>connect_out := Raise OSError\<rparr>)) (initial_world Absent)
       = Return ''localhost''"
  using get_local_ip_fallback [of "env_ok\<lparr>connect_out := Raise OSError\<rparr>" "initial_world Absent"]
  by (simp add: discovery_fails_def env_ok_def)

text \<open>
  Claim C9. When no step of the discovery fails, \<^verbatim>\<open>get_local_ip\<close> returns the host part of
  the bound address, its calls are the socket creation, the connect to 8.8.8.8 port 80,
  \<^verbatim>\<open>getsockname\<close> and \<^verbatim>\<open>close\<close>, all on the one socket it created, the close being the last
  call before it returns; and on return that socket is no longer among the open ones.
\<close>

theorem get_local_ip_closes_socket:
  assumes "socket_out env = Return ()" and "connect_out env = Return ()"
    and "getsockname_out env = Return a" and "close_out env = Return ()"
  shows "outcome_of (get_local_ip env) w = Return (fst a)
    \<and> events_of (get_local_ip env) w =
        [Socket_new, Socket_connect (next_socket w) (''8.8.8.8'', 80),
         Socket_getsockname (next_socket w), Socket_close (next_socket w)]
    \<and> open_sockets (world_of (get_local_ip env) w) = removeAll (next_socket w) (open_sockets w)
    \<and> next_socket w \<notin> set (open_sockets (world_of (get_local_ip env) w))"
  using assms
  by (simp add: get_local_ip_def run_try run_bind socket_socket_run socket_close_run Let_def)

theorem get_local_ip_closes_socket_witness:
  "socket_out env_ok = Return () \<and> connect_out env_ok = Return ()
   \<and> getsockname_out env_ok = Return (''192.168.1.20'', 54321) \<and> close_out env_ok = Return ()
   \<and> outcome_of (get_local_ip env_ok) (initial_world Readable) = Return ''192.168.1.20''
   \<and> events_of (get_local_ip env_ok) (initial_world Readable) =
        [Socket_new, Socket_connect 0 (''8.8.8.8'', 80), Socket_getsockname 0, Socket_close 0]
   \<and> open_sockets (world_of (get_local_ip env_ok) (initial_world Readable)) = []"
  using get_local_ip_closes_socket [of env_ok "(''192.168.1.20'', 54321)" "initial_world Readable"]
  by (simp add: env_ok_def initial_world_def)

subsection \<open>The statement groups, one by one\<close>

lemma in_events_bind:
  "ev \<in> set (events_of (bind_prog m f) w) \<longleftrightarrow>
     ev \<in> set (events_of m w)
     \<or> (\<exists>x. outcome_of m w = Return x \<and> ev \<in> set (events_of (f x) (world_of m w)))"
  by (cases "outcome_of m w") (simp_all add: events_of_bind)

lemma bind_Return:
  assumes "outcome_of m w = Return x"
  shows "outcome_of (bind_prog m f) w = outcome_of (f x) (world_of m w)"
    and "events_of (bind_prog m f) w = events_of m w @ events_of (f x) (world_of m w)"
    and "world_of (bind_prog m f) w = world_of (f x) (world_of m w)"
  using assms by (simp_all add: run_bind)

lemma bind_Raise:
  assumes "outcome_of m w = Raise e"
  shows "outcome_of (bind_prog m f) w = Raise e"
    and "events_of (bind_prog m f) w = events_of m w"
    and "world_of (bind_prog m f) w = world_of m w"
  using assms by (simp_all add: run_bind)

lemma bind_Hang:
  assumes "outcome_of m w = Hang"
  shows "outcome_of (bind_prog m f) w = Hang"
    and "events_of (bind_prog m f) w = events_of m w"
    and "world_of (bind_prog m f) w = world_of m w"
  using assms by (simp_all add: run_bind)

lemma banner_world: "world_of (banner env) w = w"
  by (cases "print_out env 27"; cases "print_out env 28") (simp_all add: banner_def world_of_bind)

lemma banner_outcome:
  "outcome_of (banner env) w =
     (case print_out env 27 of
        Return _ \<Rightarrow> print_out env 28 | Raise e \<Rightarrow> Raise e | Hang \<Rightarrow> Hang)"
  by (cases "print_out env 27"; cases "print_out env 28") (simp_all add: banner_def outcome_of_bind)

lemma banner_events_Print: "ev \<in> set (events_of (banner env) w) \<Longrightarrow> \<exists>s. ev = Print s"
  by (cases "print_out env 27") (auto simp add: banner_def events_of_bind)

lemma provision_System:
  "System cmd \<in> set (events_of (provision_certificate env) w) \<longleftrightarrow>
     cmd = openssl_command \<and> generation_reached env w"
  by (cases "exists_out env"; cases "print_out env 32"; cases "print_out env 33")
     (auto simp add: provision_certificate_def generation_reached_def events_of_bind
        outcome_of_bind world_of_bind os_path_exists_run)

lemma provision_world:
  "world_of (provision_certificate env) w =
     (if generation_reached env w then w\<lparr>cert_pem := system_cert env\<rparr> else w)"
  by (cases "exists_out env"; cases "print_out env 32"; cases "print_out env 33"; cases "system_out env")
     (simp_all add: provision_certificate_def generation_reached_def
        outcome_of_bind world_of_bind os_path_exists_run)

lemma get_local_ip_events_socket:
  "ev \<in> set (events_of (get_local_ip env) w) \<Longrightarrow>
     ev = Socket_new \<or> ev = Socket_connect (next_socket w) (''8.8.8.8'', 80)
     \<or> ev = Socket_getsockname (next_socket w) \<or> ev = Socket_close (next_socket w)"
  by (cases "socket_out env"; cases "connect_out env"; cases "getsockname_out env";
      cases "close_out env")
     (auto simp add: get_local_ip_def run_try run_bind socket_socket_run socket_close_run Let_def)

lemma block_prints_world:
  "world_of (block (map (\<lambda>(l, s). py_print env l s) ls)) w = w"
  by (induction ls) (auto simp add: world_of_bind split: outcome.splits)

lemma block_prints_outcome:
  "outcome_of (block (map (\<lambda>(l, s). py_print env l s) ls)) w =
     first_nonreturn (map (\<lambda>(l, s). print_out env l) ls)"
  by (induction ls) (auto simp add: outcome_of_bind split: outcome.splits)

lemma block_prints_events_mem:
  "ev \<in> set (events_of (block (map (\<lambda>(l, s). py_print env l s) ls)) w) \<Longrightarrow>
     \<exists>s \<in> snd ` set ls. ev = Print s"
  by (induction ls) (auto simp add: events_of_bind split: outcome.splits)

lemma block_prints_events_all:
  "outcome_of (block (map (\<lambda>(l, s). py_print env l s) ls)) w = Return () \<Longrightarrow>
     events_of (block (map (\<lambda>(l, s). py_print env l s) ls)) w = map (\<lambda>(l, s). Print s) ls"
  by (induction ls) (auto simp add: events_of_bind outcome_of_bind split: outcome.splits)

lemma report_world: "world_of (startup_report env P ip) w = w"
  by (simp add: startup_report_def block_prints_world)

lemma report_events_Print:
  "ev \<in> set (events_of (startup_report env P ip) w) \<Longrightarrow>
     \<exists>s \<in> set (report_lines P ip). ev = Print s"
  unfolding startup_report_def
  by (drule block_prints_events_mem) (auto dest: set_zip_rightD)

lemma report_events_all:
  "outcome_of (startup_report env P ip) w = Return () \<Longrightarrow>
     events_of (startup_report env P ip) w = map Print (report_lines P ip)"
  unfolding startup_report_def
  by (drule block_prints_events_all)
     (simp add: report_source_lines_def report_lines_def)

lemma serve_events:
  "events_of (serve env h) w =
     Serve_forever (socket h) #
       (if serve_forever_out env = Raise KeyboardInterrupt then [Print farewell] else [])"
  by (cases "serve_forever_out env") (simp_all add: serve_def run_try)

lemma serve_outcome:
  "outcome_of (serve env h) w =
     (if serve_forever_out env = Raise KeyboardInterrupt then print_out env 60
      else serve_forever_out env)"
  by (cases "serve_forever_out env") (simp_all add: serve_def run_try)

lemma serve_world: "world_of (serve env h) w = w"
  by (cases "serve_forever_out env") (simp_all add: serve_def run_try)

lemma main_System:
  "System cmd \<in> set (events_of (main env) w) \<longleftrightarrow>
     cmd = openssl_command \<and> returns (print_out env 27) \<and> returns (print_out env 28)
     \<and> generation_reached env w"
  by (cases "print_out env 27"; cases "print_out env 28")
     (auto simp add: main_segments in_events_bind banner_outcome banner_world provision_System
        HTTPServer_run ssl_wrap_socket_events serve_events
        dest: banner_events_Print get_local_ip_events_socket report_events_Print
        split: if_splits)

subsection \<open>Certificate provisioning\<close>

lemma shell_words_openssl:
  "shell_words openssl_command =
     [''openssl'', ''req'', ''-new'', ''-x509'', ''-keyout'', ''cert.pem'', ''-out'',
      ''cert.pem'', ''-days'', ''365'', ''-nodes'', ''-subj'', ''/CN=localhost'']"
  by (simp add: shell_words_def openssl_command_def)

lemma bind_cert:
  assumes "\<And>w. cert_pem (world_of m w) = cert_pem w"
    and "\<And>x w. cert_pem (world_of (f x) w) = cert_pem w"
  shows "cert_pem (world_of (bind_prog m f) w) = cert_pem w"
  by (cases "outcome_of m w") (simp_all add: world_of_bind assms)

lemma HTTPServer_cert: "cert_pem (world_of (HTTPServer env addr) w) = cert_pem w"
  by (cases "httpserver_out env") (simp_all add: HTTPServer_run)

lemma get_local_ip_cert: "cert_pem (world_of (get_local_ip env) w) = cert_pem w"
  by (cases "socket_out env"; cases "connect_out env"; cases "getsockname_out env";
      cases "close_out env")
     (simp_all add: get_local_ip_def run_try run_bind socket_socket_run socket_close_run Let_def)

lemma after_bring_up_cert:
  "cert_pem (world_of
      (bind_prog (ssl_wrap_socket env s ''./cert.pem'' True) (\<lambda>s.
       bind_prog (get_local_ip env) (\<lambda>local_ip.
       bind_prog (startup_report env 8000 local_ip) (\<lambda>_.
       serve env (h\<lparr>socket := s\<rparr>))))) w) = cert_pem w"
  by (intro bind_cert) (simp_all add: ssl_wrap_socket_cert get_local_ip_cert report_world serve_world)

lemma bring_up_cert:
  "cert_pem (world_of (bring_up env) w) =
     (if returns (print_out env 27) \<and> returns (print_out env 28) \<and> generation_reached env w
      then system_cert env else cert_pem w)"
  by (cases "print_out env 27"; cases "print_out env 28";
      cases "outcome_of (provision_certificate env) w")
     (simp_all add: bring_up_def run_bind banner_outcome banner_world
        provision_world HTTPServer_cert)

lemma main_cert:
  "cert_pem (world_of (main env) w) =
     (if returns (print_out env 27) \<and> returns (print_out env 28) \<and> generation_reached env w
      then system_cert env else cert_pem w)"
  by (cases "outcome_of (bring_up env) w")
     (simp_all add: main_bring_up bind_Return bind_Raise bind_Hang after_bring_up_cert
        bring_up_cert)

text \<open>
  Claim C2. When \<^verbatim>\<open>cert.pem\<close> exists at startup, \<^verbatim>\<open>main\<close> makes no \<^verbatim>\<open>os.system\<close> call at all, and
  leaves the file as it is (so a second run finds it again). The tool is invoked exactly
  when the file is absent and the statements before the call returned, and then with the
  command of line 34.
\<close>

theorem generation_only_when_absent:
  "(cert_pem w \<noteq> Absent \<longrightarrow>
      (\<forall>cmd. System cmd \<notin> set (events_of (main env) w))
      \<and> cert_pem (world_of (main env) w) = cert_pem w)
   \<and> (System cmd \<in> set (events_of (main env) w) \<longleftrightarrow>
        cmd = openssl_command \<and> cert_pem w = Absent
        \<and> returns (print_out env 27) \<and> returns (print_out env 28) \<and> returns (exists_out env)
        \<and> returns (print_out env 32) \<and> returns (print_out env 33))"
  by (auto simp add: main_System main_cert generation_reached_def)

theorem generation_only_when_absent_witness:
  "cert_pem (initial_world Readable) \<noteq> Absent
   \<and> (\<forall>cmd. System cmd \<notin> set (events_of (main env_ok) (initial_world Readable)))
   \<and> cert_pem (world_of (main env_ok) (initial_world Readable)) = Readable
   \<and> System openssl_command \<in> set (events_of (main env_ok) (initial_world Absent))"
  using generation_only_when_absent [of "initial_world Readable" env_ok]
    generation_only_when_absent [of "initial_world Absent" env_ok openssl_command]
  by (simp add: initial_world_def env_ok_def)

text \<open>
  Claim C3. Whenever \<^verbatim>\<open>main\<close> invokes the external tool, the command is \<^verbatim>\<open>openssl req\<close> with
  \<^verbatim>\<open>-x509\<close> (a self-signed certificate instead of a request), \<^verbatim>\<open>-days 365\<close>,
  \<^verbatim>\<open>-subj /CN=localhost\<close>, \<^verbatim>\<open>-nodes\<close> (the key is not encrypted), and \<^verbatim>\<open>-keyout\<close> and \<^verbatim>\<open>-out\<close>
  naming the same file \<^verbatim>\<open>cert.pem\<close>.
\<close>

theorem generation_command:
  assumes "System cmd \<in> set (events_of (main env) w)"
  shows "cmd = openssl_command
    \<and> shell_words cmd =
        [''openssl'', ''req'', ''-new'', ''-x509'', ''-keyout'', ''cert.pem'', ''-out'',
         ''cert.pem'', ''-days'', ''365'', ''-nodes'', ''-subj'', ''/CN=localhost'']
    \<and> ''-x509'' \<in> set (shell_words cmd)
    \<and> option_value ''-days'' (shell_words cmd) = Some ''365''
    \<and> option_value ''-subj'' (shell_words cmd) = Some ''/CN=localhost''
    \<and> ''-nodes'' \<in> set (shell_words cmd)
    \<and> option_value ''-keyout'' (shell_words cmd) = Some ''cert.pem''
    \<and> option_value ''-out'' (shell_words cmd) = Some ''cert.pem''"
proof -
  from assms have cmd: "cmd = openssl_command"
    by (simp add: main_System)
  show ?thesis
    unfolding cmd shell_words_openssl by simp
qed

theorem generation_command_witness:
  "System openssl_command \<in> set (events_of (main env_ok) (initial_world Absent))
   \<and> option_value ''-days'' (shell_words openssl_command) = Some ''365''
   \<and> option_value ''-keyout'' (shell_words openssl_command)
       = option_value ''-out'' (shell_words openssl_command)"
proof -
  have reached: "System openssl_command \<in> set (events_of (main env_ok) (initial_world Absent))"
    by (simp add: main_System generation_reached_def env_ok_def initial_world_def)
  from generation_command [OF reached] show ?thesis
    using reached by simp
qed

lemma prog_eqI:
  assumes "outcome_of p w = outcome_of q w" and "events_of p w = events_of q w"
    and "world_of p w = world_of q w"
  shows "p w = q w"
  using assms by (simp add: outcome_of_def events_of_def world_of_def prod_eq_iff)

lemma provision_reached:
  assumes "generation_reached env w"
  shows "outcome_of (provision_certificate env) w = void (system_out env)"
    and "\<exists>pre. events_of (provision_certificate env) w = pre @ [System openssl_command]"
    and "world_of (provision_certificate env) w = w\<lparr>cert_pem := system_cert env\<rparr>"
  using assms
  by (cases "exists_out env"; cases "print_out env 32"; cases "print_out env 33";
      cases "system_out env";
      simp add: provision_certificate_def generation_reached_def run_bind os_path_exists_run)+

lemma py_print_status: "py_print (env\<lparr>system_out := x\<rparr>) = py_print env"
  by (intro ext) (simp add: py_print_def)

lemma os_path_exists_status: "os_path_exists (env\<lparr>system_out := x\<rparr>) = os_path_exists env"
  by (intro ext) (simp add: os_path_exists_def)

lemma HTTPServer_status: "HTTPServer (env\<lparr>system_out := x\<rparr>) = HTTPServer env"
  by (intro ext) (simp add: HTTPServer_def)

lemma ssl_wrap_socket_status: "ssl_wrap_socket (env\<lparr>system_out := x\<rparr>) = ssl_wrap_socket env"
  by (intro ext) (simp add: ssl_wrap_socket_def split: file_state.splits)

lemma get_local_ip_status: "get_local_ip (env\<lparr>system_out := x\<rparr>) = get_local_ip env"
proof -
  have "socket_socket (env\<lparr>system_out := x\<rparr>) = socket_socket env"
    by (intro ext) (simp add: socket_socket_def)
  moreover have "socket_connect (env\<lparr>system_out := x\<rparr>) = socket_connect env"
    by (intro ext) (simp add: socket_connect_def)
  moreover have "socket_getsockname (env\<lparr>system_out := x\<rparr>) = socket_getsockname env"
    by (intro ext) (simp add: socket_getsockname_def)
  moreover have "socket_close (env\<lparr>system_out := x\<rparr>) = socket_close env"
    by (intro ext) (simp add: socket_close_def)
  ultimately show ?thesis
    by (simp add: get_local_ip_def)
qed

lemma serve_status: "serve (env\<lparr>system_out := x\<rparr>) = serve env"
proof -
  have "serve_forever (env\<lparr>system_out := x\<rparr>) = serve_forever env"
    by (intro ext) (simp add: serve_forever_def)
  then show ?thesis
    by (intro ext) (simp add: serve_def py_print_status cong: if_cong)
qed

lemma os_system_status:
  assumes "system_out env = Return a"
  shows "bind_prog (os_system (env\<lparr>system_out := Return b\<rparr>) cmd) (\<lambda>_. return_prog ())
         = bind_prog (os_system env cmd) (\<lambda>_. return_prog ())"
  using assms by (intro ext) (simp add: bind_prog_def os_system_def return_prog_def)

lemma provision_status:
  assumes "system_out env = Return a"
  shows "provision_certificate (env\<lparr>system_out := Return b\<rparr>) = provision_certificate env"
  unfolding provision_certificate_def py_print_status os_path_exists_status
    os_system_status [OF assms] ..

lemma main_status:
  assumes "system_out env = Return a"
  shows "main (env\<lparr>system_out := Return b\<rparr>) = main env"
  unfolding main_segments provision_status [OF assms] HTTPServer_status ssl_wrap_socket_status
    get_local_ip_status serve_status banner_def startup_report_def py_print_status ..

lemma bring_up_reached:
  assumes "returns (print_out env 27)" and "returns (print_out env 28)"
    and "generation_reached env w" and "system_out env = Return status"
  shows "outcome_of (bring_up env) w =
           (case httpserver_out env of
              Return _ \<Rightarrow> Return \<lparr>server_address = (''0.0.0.0'', 8000), socket = next_socket w\<rparr>
            | Raise e \<Rightarrow> Raise e | Hang \<Rightarrow> Hang)"
    and "\<exists>pre. events_of (bring_up env) w =
           pre @ [System openssl_command, HTTPServer_init ('''', 8000)]"
    and "cert_pem (world_of (bring_up env) w) = system_cert env"
proof -
  from assms(1,2) have b: "outcome_of (banner env) w = Return ()"
    by (cases "print_out env 27"; cases "print_out env 28") (simp_all add: banner_outcome)
  from provision_reached [OF assms(3)] assms(4)
  obtain pre where p: "outcome_of (provision_certificate env) w = Return ()"
      "events_of (provision_certificate env) w = pre @ [System openssl_command]"
      "world_of (provision_certificate env) w = w\<lparr>cert_pem := system_cert env\<rparr>"
    by auto
  show "outcome_of (bring_up env) w =
           (case httpserver_out env of
              Return _ \<Rightarrow> Return \<lparr>server_address = (''0.0.0.0'', 8000), socket = next_socket w\<rparr>
            | Raise e \<Rightarrow> Raise e | Hang \<Rightarrow> Hang)"
    by (simp add: bring_up_def bind_Return b p banner_world HTTPServer_run split: outcome.split)
  show "\<exists>pre. events_of (bring_up env) w =
           pre @ [System openssl_command, HTTPServer_init ('''', 8000)]"
    by (simp add: bring_up_def bind_Return b p banner_world HTTPServer_run)
  show "cert_pem (world_of (bring_up env) w) = system_cert env"
    using assms by (simp add: bring_up_cert)
qed

text \<open>
  Claim C4. When the external tool was invoked and exited with any status, \<^verbatim>\<open>main\<close> behaves
  exactly as it would for any other status: the return value is discarded. The call that
  follows the tool invocation is the server construction; when that returns, the TLS
  wrapping is attempted; and when the tool has left no \<^verbatim>\<open>cert.pem\<close>, it is there that
  \<^verbatim>\<open>main\<close> fails, with the wrapping as its last call.
\<close>

theorem generation_failure_ignored:
  assumes "System cmd \<in> set (events_of (main env) w)"
    and "system_out env = Return status"
  shows "main (env\<lparr>system_out := Return status'\<rparr>) w = main env w
    \<and> (\<exists>pre post. events_of (main env) w =
          pre @ [System openssl_command, HTTPServer_init ('''', 8000)] @ post)
    \<and> (httpserver_out env = Return () \<longrightarrow>
          Wrap_socket (next_socket w) ''./cert.pem'' True \<in> set (events_of (main env) w))
    \<and> (httpserver_out env = Return () \<and> system_cert env = Absent \<longrightarrow>
          outcome_of (main env) w = Raise FileNotFoundError
          \<and> last (events_of (main env) w) = Wrap_socket (next_socket w) ''./cert.pem'' True)"
proof -
  from assms(1) have reached: "returns (print_out env 27)" "returns (print_out env 28)"
      "generation_reached env w"
    by (simp_all add: main_System)
  note bu = bring_up_reached [OF reached assms(2)]
  from bu(2) obtain pre where pre:
    "events_of (bring_up env) w = pre @ [System openssl_command, HTTPServer_init ('''', 8000)]"
    by blast
  have status: "main (env\<lparr>system_out := Return status'\<rparr>) w = main env w"
    by (simp add: main_status [OF assms(2)])
  have order: "\<exists>pre post. events_of (main env) w =
      pre @ [System openssl_command, HTTPServer_init ('''', 8000)] @ post"
  proof (cases "outcome_of (bring_up env) w")
    case (Return h)
    show ?thesis
      unfolding main_bring_up bind_Return(2) [OF Return] pre by auto
  next
    case (Raise e)
    show ?thesis
      unfolding main_bring_up bind_Raise(2) [OF Raise] pre by auto
  next
    case Hang
    show ?thesis
      unfolding main_bring_up bind_Hang(2) [OF Hang] pre by auto
  qed
  have wrapped: "Wrap_socket (next_socket w) ''./cert.pem'' True \<in> set (events_of (main env) w)"
    if "httpserver_out env = Return ()"
  proof -
    from bu(1) that have h: "outcome_of (bring_up env) w =
        Return \<lparr>server_address = (''0.0.0.0'', 8000), socket = next_socket w\<rparr>"
      by simp
    show ?thesis
      unfolding main_bring_up bind_Return(2) [OF h]
      by (simp add: in_events_bind ssl_wrap_socket_events)
  qed
  have missing: "outcome_of (main env) w = Raise FileNotFoundError
      \<and> last (events_of (main env) w) = Wrap_socket (next_socket w) ''./cert.pem'' True"
    if "httpserver_out env = Return ()" and "system_cert env = Absent"
  proof -
    from bu(1) that have h: "outcome_of (bring_up env) w =
        Return \<lparr>server_address = (''0.0.0.0'', 8000), socket = next_socket w\<rparr>"
      by simp
    have wr: "outcome_of (ssl_wrap_socket env (next_socket w) ''./cert.pem'' True)
        (world_of (bring_up env) w) = Raise FileNotFoundError"
      using bu(3) that by (simp add: ssl_wrap_socket_outcome)
    show ?thesis
      unfolding main_bring_up bind_Return(1,2) [OF h]
      using wr by (simp add: bind_Raise ssl_wrap_socket_events)
  qed
  from status order wrapped missing show ?thesis
    by blast
qed

theorem generation_failure_ignored_witness:
  "System openssl_command
     \<in> set (events_of (main (env_ok\<lparr>system_out := Return 1, system_cert := Absent\<rparr>))
              (initial_world Absent))
   \<and> main (env_ok\<lparr>system_out := Return 1, system_cert := Absent\<rparr>) (initial_world Absent)
       = main (env_ok\<lparr>system_out := Return 0, system_cert := Absent\<rparr>) (initial_world Absent)
   \<and> outcome_of (main (env_ok\<lparr>system_out := Return 1, system_cert := Absent\<rparr>))
        (initial_world Absent) = Raise FileNotFoundError
   \<and> last (events_of (main (env_ok\<lparr>system_out := Return 1, system_cert := Absent\<rparr>))
        (initial_world Absent)) = Wrap_socket 0 ''./cert.pem'' True"
proof -
  let ?env = "env_ok\<lparr>system_out := Return 1, system_cert := Absent\<rparr>"
  have reached: "System openssl_command \<in> set (events_of (main ?env) (initial_world Absent))"
    by (simp add: main_System generation_reached_def env_ok_def initial_world_def)
  have status: "system_out ?env = Return 1"
    by simp
  from generation_failure_ignored [OF reached status, of 0] reached show ?thesis
    by (simp add: env_ok_def initial_world_def)
qed

subsection \<open>How \<^verbatim>\<open>main\<close> ends\<close>

lemma first_nonreturn_append:
  "first_nonreturn (xs @ ys) =
     (case first_nonreturn xs of
        Return _ \<Rightarrow> first_nonreturn ys | Raise e \<Rightarrow> Raise e | Hang \<Rightarrow> Hang)"
proof (induction xs)
  case Nil
  show ?case by simp
next
  case (Cons x xs)
  then show ?case by (cases x) simp_all
qed

lemma first_nonreturn_Cons:
  "first_nonreturn (x # xs) =
     (case x of Return _ \<Rightarrow> first_nonreturn xs | Raise e \<Rightarrow> Raise e | Hang \<Rightarrow> Hang)"
  by (cases x) simp_all

lemma first_nonreturn_single: "first_nonreturn [x] = x"
  by (cases x) simp_all

lemma get_local_ip_outcome_world:
  "outcome_of (get_local_ip env) w = outcome_of (get_local_ip env) w'"
  by (simp add: get_local_ip_outcome)

lemma report_outcome:
  "outcome_of (startup_report env P ip) w = first_nonreturn (map (print_out env) report_source_lines)"
  unfolding startup_report_def block_prints_outcome
  by (simp add: report_source_lines_def report_lines_def del: first_nonreturn.simps)

lemma serve_part_outcome:
  "outcome_of (bind_prog (startup_report env 8000 ip) (\<lambda>_. serve env h)) w =
     first_nonreturn (map (print_out env) report_source_lines
       @ [if serve_forever_out env = Raise KeyboardInterrupt then print_out env 60
          else serve_forever_out env])"
  unfolding first_nonreturn_append outcome_of_bind report_outcome first_nonreturn_single
  by (cases "first_nonreturn (map (print_out env) report_source_lines)")
     (simp_all add: serve_outcome)

lemma resolve_part_outcome:
  "outcome_of (bind_prog (get_local_ip env) (\<lambda>ip.
      bind_prog (startup_report env 8000 ip) (\<lambda>_. serve env h))) w =
     first_nonreturn (void (outcome_of (get_local_ip env) w0)
       # map (print_out env) report_source_lines
       @ [if serve_forever_out env = Raise KeyboardInterrupt then print_out env 60
          else serve_forever_out env])"
  unfolding outcome_of_bind [of "get_local_ip env"] serve_part_outcome first_nonreturn_Cons
    get_local_ip_outcome_world [of env w0 w]
  by (cases "outcome_of (get_local_ip env) w") simp_all

lemma wrap_part_outcome:
  "outcome_of (bind_prog (ssl_wrap_socket env s ''./cert.pem'' True) (\<lambda>s.
      bind_prog (get_local_ip env) (\<lambda>ip.
      bind_prog (startup_report env 8000 ip) (\<lambda>_. serve env (h\<lparr>socket := s\<rparr>))))) w =
     first_nonreturn (
       (case cert_pem w of
           Absent \<Rightarrow> Raise FileNotFoundError
         | Unreadable \<Rightarrow> Raise PermissionError
         | Readable \<Rightarrow> wrap_socket_out env)
       # void (outcome_of (get_local_ip env) w0)
       # map (print_out env) report_source_lines
       @ [if serve_forever_out env = Raise KeyboardInterrupt then print_out env 60
          else serve_forever_out env])"
  unfolding outcome_of_bind [of "ssl_wrap_socket env s ''./cert.pem'' True"]
    resolve_part_outcome [of env _ _ w0] first_nonreturn_Cons [of "case_file_state _ _ _ _"]
    ssl_wrap_socket_outcome
  by (cases "cert_pem w"; cases "wrap_socket_out env") simp_all

lemma banner_outcome_first:
  "outcome_of (banner env) w = first_nonreturn [print_out env 27, print_out env 28]"
  by (cases "print_out env 27"; cases "print_out env 28") (simp_all add: banner_outcome)

lemma provision_outcome:
  "outcome_of (provision_certificate env) w =
     first_nonreturn (exists_out env #
       (if cert_pem w = Absent
        then [print_out env 32, print_out env 33, void (system_out env)] else []))"
  by (cases "exists_out env"; cases "print_out env 32"; cases "print_out env 33";
      cases "system_out env")
     (simp_all add: provision_certificate_def run_bind os_path_exists_run)

lemma bring_up_outcome:
  "void (outcome_of (bring_up env) w) =
     first_nonreturn
       ([print_out env 27, print_out env 28, exists_out env]
        @ (if cert_pem w = Absent
           then [print_out env 32, print_out env 33, void (system_out env)] else [])
        @ [httpserver_out env])"
proof -
  have split: "[print_out env 27, print_out env 28, exists_out env]
        @ (if cert_pem w = Absent
           then [print_out env 32, print_out env 33, void (system_out env)] else [])
        @ [httpserver_out env]
      = [print_out env 27, print_out env 28]
        @ (exists_out env #
            (if cert_pem w = Absent
             then [print_out env 32, print_out env 33, void (system_out env)] else []))
        @ [httpserver_out env]"
    by simp
  show ?thesis
    unfolding split first_nonreturn_append banner_outcome_first [of env w, symmetric]
      provision_outcome [of env w, symmetric] first_nonreturn_single bring_up_def outcome_of_bind
    by (cases "outcome_of (banner env) w"; cases "outcome_of (provision_certificate env) w";
        cases "httpserver_out env")
       (simp_all add: HTTPServer_run banner_world)
qed

lemma bring_up_Return:
  assumes "outcome_of (bring_up env) w = Return h"
  shows "h = \<lparr>server_address = (''0.0.0.0'', 8000), socket = next_socket w\<rparr>"
    and "cert_pem (world_of (bring_up env) w) = cert_at_wrap env w"
    and "next_socket (world_of (bring_up env) w) = Suc (next_socket w)"
    and "httpserver_out env = Return ()"
    and "returns (print_out env 27)" and "returns (print_out env 28)"
    and "returns (exists_out env)"
    and "cert_pem w = Absent \<longrightarrow> generation_reached env w \<and> returns (system_out env)"
    and "events_of (bring_up env) w =
           events_of (banner env) w @ events_of (provision_certificate env) w
           @ [HTTPServer_init ('''', 8000)]"
proof -
  from assms have b: "outcome_of (banner env) w = Return ()"
    by (cases "outcome_of (banner env) w") (simp_all add: bring_up_def bind_Raise bind_Hang)
  with assms have p: "outcome_of (provision_certificate env) w = Return ()"
    by (cases "outcome_of (provision_certificate env) w")
       (simp_all add: bring_up_def bind_Return bind_Raise bind_Hang banner_world)
  from assms b p have hr: "outcome_of (HTTPServer env ('''', 8000))
      (world_of (provision_certificate env) w) = Return h"
    by (simp add: bring_up_def bind_Return banner_world)
  then show ok: "httpserver_out env = Return ()"
    by (cases "httpserver_out env") (simp_all add: HTTPServer_run)
  from b show p27: "returns (print_out env 27)" and p28: "returns (print_out env 28)"
    by (cases "print_out env 27"; cases "print_out env 28"; simp add: banner_outcome)+
  from p show ex: "returns (exists_out env)"
    by (cases "exists_out env") (simp_all add: provision_outcome)
  from p show gen: "cert_pem w = Absent \<longrightarrow> generation_reached env w \<and> returns (system_out env)"
    by (cases "exists_out env"; cases "print_out env 32"; cases "print_out env 33";
        cases "system_out env")
       (auto simp add: provision_outcome generation_reached_def split: if_splits)
  from hr ok show "h = \<lparr>server_address = (''0.0.0.0'', 8000), socket = next_socket w\<rparr>"
    by (auto simp add: HTTPServer_run provision_world)
  from gen p27 p28 show "cert_pem (world_of (bring_up env) w) = cert_at_wrap env w"
    by (auto simp add: bring_up_cert cert_at_wrap_def generation_reached_def)
  from b p ok show "next_socket (world_of (bring_up env) w) = Suc (next_socket w)"
    by (auto simp add: bring_up_def bind_Return banner_world HTTPServer_run provision_world)
  from b p show "events_of (bring_up env) w =
           events_of (banner env) w @ events_of (provision_certificate env) w
           @ [HTTPServer_init ('''', 8000)]"
    by (simp add: bring_up_def bind_Return banner_world HTTPServer_run)
qed

lemma main_outcome:
  "outcome_of (main env) w = first_nonreturn (statement_outcomes env w)"
proof -
  let ?prefix = "[print_out env 27, print_out env 28, exists_out env]
        @ (if cert_pem w = Absent
           then [print_out env 32, print_out env 33, void (system_out env)] else [])
        @ [httpserver_out env]"
  let ?rest = "(case cert_at_wrap env w of
           Absent \<Rightarrow> Raise FileNotFoundError
         | Unreadable \<Rightarrow> Raise PermissionError
         | Readable \<Rightarrow> wrap_socket_out env)
       # void (outcome_of (get_local_ip env) w)
       # map (print_out env) report_source_lines
       @ [if serve_forever_out env = Raise KeyboardInterrupt then print_out env 60
          else serve_forever_out env]"
  have so: "statement_outcomes env w = ?prefix @ ?rest"
    by (simp add: statement_outcomes_def)
  show ?thesis
  proof (cases "outcome_of (bring_up env) w")
    case (Return h)
    from bring_up_outcome [of env w] Return have "first_nonreturn ?prefix = Return ()"
      by simp
    then have "first_nonreturn (statement_outcomes env w) = first_nonreturn ?rest"
      unfolding so first_nonreturn_append by simp
    moreover have "outcome_of (main env) w = first_nonreturn ?rest"
      unfolding main_bring_up bind_Return(1) [OF Return] wrap_part_outcome [of env _ _ _ w]
        bring_up_Return(2) [OF Return] ..
    ultimately show ?thesis by simp
  next
    case (Raise e)
    from bring_up_outcome [of env w] Raise have "first_nonreturn ?prefix = Raise e"
      by simp
    then have "first_nonreturn (statement_outcomes env w) = Raise e"
      unfolding so first_nonreturn_append by simp
    then show ?thesis
      by (simp add: main_bring_up bind_Raise(1) [OF Raise])
  next
    case Hang
    from bring_up_outcome [of env w] Hang have "first_nonreturn ?prefix = Hang"
      by simp
    then have "first_nonreturn (statement_outcomes env w) = Hang"
      unfolding so first_nonreturn_append by simp
    then show ?thesis
      by (simp add: main_bring_up bind_Hang(1) [OF Hang])
  qed
qed

lemma wrap_outcome_cert:
  "outcome_of (ssl_wrap_socket env s c b) w =
     (case (case cert_pem w of
              Absent \<Rightarrow> Raise FileNotFoundError
            | Unreadable \<Rightarrow> Raise PermissionError
            | Readable \<Rightarrow> wrap_socket_out env) of
        Return _ \<Rightarrow> Return (next_socket w) | Raise e \<Rightarrow> Raise e | Hang \<Rightarrow> Hang)"
  by (cases "cert_pem w"; cases "wrap_socket_out env") (simp_all add: ssl_wrap_socket_outcome)

lemma secure_server_Return:
  assumes "outcome_of (secure_server env) w = Return h"
  shows "outcome_of (bring_up env) w = Return \<lparr>server_address = (''0.0.0.0'', 8000), socket = next_socket w\<rparr>"
    and "h = \<lparr>server_address = (''0.0.0.0'', 8000), socket = Suc (next_socket w)\<rparr>"
    and "cert_at_wrap env w = Readable" and "wrap_socket_out env = Return ()"
    and "events_of (secure_server env) w =
           events_of (bring_up env) w @ [Wrap_socket (next_socket w) ''./cert.pem'' True]"
    and "world_of (secure_server env) w =
           world_of (ssl_wrap_socket env (next_socket w) ''./cert.pem'' True)
             (world_of (bring_up env) w)"
proof -
  from assms obtain h0 where bu: "outcome_of (bring_up env) w = Return h0"
    by (cases "outcome_of (bring_up env) w")
       (simp_all add: secure_server_def bind_Raise bind_Hang)
  note facts = bring_up_Return [OF bu]
  from bu facts(1) show bu': "outcome_of (bring_up env) w =
      Return \<lparr>server_address = (''0.0.0.0'', 8000), socket = next_socket w\<rparr>"
    by simp
  let ?w1 = "world_of (bring_up env) w"
  let ?wrap = "ssl_wrap_socket env (next_socket w) ''./cert.pem'' True"
  from assms obtain s where wr: "outcome_of ?wrap ?w1 = Return s"
    unfolding secure_server_def bind_Return(1) [OF bu']
    by (cases "outcome_of ?wrap ?w1") (simp_all add: bind_Raise bind_Hang)
  then show "cert_at_wrap env w = Readable" and "wrap_socket_out env = Return ()"
    using facts(2)
    by (cases "cert_at_wrap env w"; cases "wrap_socket_out env";
        simp add: ssl_wrap_socket_outcome)+
  from wr have s: "s = Suc (next_socket w)"
    using facts(2,3)
    by (cases "cert_at_wrap env w"; cases "wrap_socket_out env")
       (simp_all add: ssl_wrap_socket_outcome)
  from assms show "h = \<lparr>server_address = (''0.0.0.0'', 8000), socket = Suc (next_socket w)\<rparr>"
    by (simp add: secure_server_def bind_Return(1) [OF bu'] bind_Return(1) [OF wr] s)
  show "events_of (secure_server env) w =
           events_of (bring_up env) w @ [Wrap_socket (next_socket w) ''./cert.pem'' True]"
    by (simp add: secure_server_def bind_Return(2) [OF bu'] bind_Return(2) [OF wr]
          ssl_wrap_socket_events)
  show "world_of (secure_server env) w = world_of ?wrap ?w1"
    by (simp add: secure_server_def bind_Return(3) [OF bu'] bind_Return(3) [OF wr])
qed

lemma startup_Return:
  assumes "outcome_of (startup env) w = Return h"
  shows "outcome_of (secure_server env) w = Return h"
    and "\<exists>ip. outcome_of (get_local_ip env) (world_of (secure_server env) w) = Return ip
           \<and> events_of (startup env) w =
               events_of (secure_server env) w
               @ events_of (get_local_ip env) (world_of (secure_server env) w)
               @ map Print (report_lines 8000 ip)"
    and "world_of (startup env) w = world_of (get_local_ip env) (world_of (secure_server env) w)"
    and "first_nonreturn (map (print_out env) report_source_lines) = Return ()"
proof -
  let ?w1 = "world_of (secure_server env) w"
  let ?w2 = "world_of (get_local_ip env) ?w1"
  from assms obtain h0 where ss: "outcome_of (secure_server env) w = Return h0"
    by (cases "outcome_of (secure_server env) w") (simp_all add: startup_def bind_Raise bind_Hang)
  from assms obtain ip where ip: "outcome_of (get_local_ip env) ?w1 = Return ip"
    unfolding startup_def bind_Return(1) [OF ss]
    by (cases "outcome_of (get_local_ip env) ?w1") (simp_all add: bind_Raise bind_Hang)
  from assms have rp: "outcome_of (startup_report env 8000 ip) ?w2 = Return ()"
    unfolding startup_def bind_Return(1) [OF ss] bind_Return(1) [OF ip]
    by (cases "outcome_of (startup_report env 8000 ip) ?w2") (simp_all add: bind_Raise bind_Hang)
  from assms have "h0 = h"
    unfolding startup_def bind_Return(1) [OF ss] bind_Return(1) [OF ip] bind_Return(1) [OF rp]
    by simp
  with ss show "outcome_of (secure_server env) w = Return h"
    by simp
  have "events_of (startup env) w =
      events_of (secure_server env) w @ events_of (get_local_ip env) ?w1
      @ map Print (report_lines 8000 ip)"
    unfolding startup_def bind_Return(2) [OF ss] bind_Return(2) [OF ip] bind_Return(2) [OF rp]
    by (simp add: report_events_all [OF rp])
  with ip show "\<exists>ip. outcome_of (get_local_ip env) ?w1 = Return ip
           \<and> events_of (startup env) w =
               events_of (secure_server env) w @ events_of (get_local_ip env) ?w1
               @ map Print (report_lines 8000 ip)"
    by blast
  show "world_of (startup env) w = ?w2"
    unfolding startup_def bind_Return(3) [OF ss] bind_Return(3) [OF ip] bind_Return(3) [OF rp]
    by (simp add: report_world)
  from rp show "first_nonreturn (map (print_out env) report_source_lines) = Return ()"
    by (simp add: report_outcome)
qed

lemma startup_ReturnI:
  assumes "returns (print_out env 27)" and "returns (print_out env 28)"
    and "returns (exists_out env)"
    and "cert_pem w = Absent \<longrightarrow>
           returns (print_out env 32) \<and> returns (print_out env 33) \<and> returns (system_out env)"
    and "httpserver_out env = Return ()"
    and "cert_at_wrap env w = Readable" and "wrap_socket_out env = Return ()"
    and "returns (outcome_of (get_local_ip env) w)"
    and "first_nonreturn (map (print_out env) report_source_lines) = Return ()"
  shows "outcome_of (startup env) w =
           Return \<lparr>server_address = (''0.0.0.0'', 8000), socket = Suc (next_socket w)\<rparr>"
proof -
  have returns_void: "returns (void x) = returns x" for x :: "int outcome"
    by (cases x) simp_all
  from assms(1-4) have prefix: "first_nonreturn
       ([print_out env 27, print_out env 28, exists_out env]
        @ (if cert_pem w = Absent
           then [print_out env 32, print_out env 33, void (system_out env)] else [])
        @ [httpserver_out env]) = httpserver_out env"
    by (cases "httpserver_out env") (simp_all add: returns_void)
  with assms(5) have "void (outcome_of (bring_up env) w) = Return ()"
    by (simp add: bring_up_outcome)
  then obtain h0 where bu: "outcome_of (bring_up env) w = Return h0"
    by (cases "outcome_of (bring_up env) w") simp_all
  note facts = bring_up_Return [OF bu]
  let ?w1 = "world_of (bring_up env) w"
  from facts(2,3) assms(6,7)
  have wr: "outcome_of (ssl_wrap_socket env (socket h0) ''./cert.pem'' True) ?w1
      = Return (Suc (next_socket w))"
    by (simp add: ssl_wrap_socket_outcome)
  let ?h = "\<lparr>server_address = (''0.0.0.0'', 8000), socket = Suc (next_socket w)\<rparr>"
  have ss: "outcome_of (secure_server env) w = Return ?h"
    using facts(1) wr
    by (simp add: secure_server_def bind_Return(1) [OF bu] bind_Return(1))
  let ?w2 = "world_of (secure_server env) w"
  from assms(8) obtain ip where ip: "outcome_of (get_local_ip env) ?w2 = Return ip"
    unfolding get_local_ip_outcome_world [of env w ?w2]
    by (cases "outcome_of (get_local_ip env) ?w2") simp_all
  have rp: "outcome_of (startup_report env 8000 ip) (world_of (get_local_ip env) ?w2) = Return ()"
    using assms(9) by (simp add: report_outcome)
  show ?thesis
    unfolding startup_def bind_Return(1) [OF ss] bind_Return(1) [OF ip] bind_Return(1) [OF rp]
    by simp
qed

lemma env_ok_startup:
  assumes "print_out env = (\<lambda>_. Return ())" and "exists_out env = Return ()"
    and "system_out env = Return status" and "httpserver_out env = Return ()"
    and "cert_at_wrap env w = Readable" and "wrap_socket_out env = Return ()"
    and "returns (outcome_of (get_local_ip env) w)"
  shows "outcome_of (startup env) w =
           Return \<lparr>server_address = (''0.0.0.0'', 8000), socket = Suc (next_socket w)\<rparr>"
  using assms by (intro startup_ReturnI) (simp_all add: report_source_lines_def)

text \<open>
  Claim C5. \<^verbatim>\<open>main\<close> ends as the first of its statements that does not return: whatever
  a statement raises is what \<^verbatim>\<open>main\<close> raises, the one exception being a KeyboardInterrupt
  out of \<^verbatim>\<open>serve_forever\<close>. That one is caught: the farewell is printed as the last call
  and \<^verbatim>\<open>main\<close> ends as that print does, so it returns normally when the print returns. Any
  other exception out of \<^verbatim>\<open>serve_forever\<close>, and any exception during the startup
  (a KeyboardInterrupt included), leaves \<^verbatim>\<open>main\<close> uncaught, with no further call.
\<close>

theorem only_keyboard_interrupt_handled:
  "outcome_of (main env) w = first_nonreturn (statement_outcomes env w)
   \<and> (outcome_of (startup env) w = Return h \<and> serve_forever_out env = Raise KeyboardInterrupt \<longrightarrow>
        events_of (main env) w
          = events_of (startup env) w @ [Serve_forever (socket h), Print farewell]
        \<and> outcome_of (main env) w = print_out env 60)
   \<and> (outcome_of (startup env) w = Return h \<and> serve_forever_out env = Raise e
        \<and> e \<noteq> KeyboardInterrupt \<longrightarrow>
        events_of (main env) w = events_of (startup env) w @ [Serve_forever (socket h)]
        \<and> outcome_of (main env) w = Raise e)
   \<and> (outcome_of (startup env) w = Raise e \<longrightarrow>
        events_of (main env) w = events_of (startup env) w
        \<and> outcome_of (main env) w = Raise e)"
proof (intro conjI impI)
  show "outcome_of (main env) w = first_nonreturn (statement_outcomes env w)"
    by (rule main_outcome)
next
  assume "outcome_of (startup env) w = Return h \<and> serve_forever_out env = Raise KeyboardInterrupt"
  then show "events_of (main env) w
      = events_of (startup env) w @ [Serve_forever (socket h), Print farewell]"
    and "outcome_of (main env) w = print_out env 60"
    by (simp_all add: main_startup bind_Return serve_events serve_outcome)
next
  assume "outcome_of (startup env) w = Return h \<and> serve_forever_out env = Raise e
      \<and> e \<noteq> KeyboardInterrupt"
  then show "events_of (main env) w = events_of (startup env) w @ [Serve_forever (socket h)]"
    and "outcome_of (main env) w = Raise e"
    by (simp_all add: main_startup bind_Return serve_events serve_outcome)
next
  assume "outcome_of (startup env) w = Raise e"
  then show "events_of (main env) w = events_of (startup env) w"
    and "outcome_of (main env) w = Raise e"
    by (simp_all add: main_startup bind_Raise)
qed

theorem only_keyboard_interrupt_handled_witness:
  "outcome_of (startup env_ok) (initial_world Readable)
     = Return \<lparr>server_address = (''0.0.0.0'', 8000), socket = 1\<rparr>
   \<and> serve_forever_out env_ok = Raise KeyboardInterrupt
   \<and> outcome_of (main env_ok) (initial_world Readable) = Return ()
   \<and> events_of (main env_ok) (initial_world Readable)
       = events_of (startup env_ok) (initial_world Readable) @ [Serve_forever 1, Print farewell]
   \<and> serve_forever_out (env_ok\<lparr>serve_forever_out := Raise OSError\<rparr>) = Raise OSError
   \<and> outcome_of (main (env_ok\<lparr>serve_forever_out := Raise OSError\<rparr>)) (initial_world Readable)
       = Raise OSError
   \<and> outcome_of (main (env_ok\<lparr>print_out := (\<lambda>_. Raise KeyboardInterrupt)\<rparr>))
        (initial_world Readable) = Raise KeyboardInterrupt"
proof -
  let ?w = "initial_world Readable"
  let ?h = "\<lparr>server_address = (''0.0.0.0'', 8000), socket = 1\<rparr>"
  let ?env' = "env_ok\<lparr>serve_forever_out := Raise OSError\<rparr>"
  let ?env'' = "env_ok\<lparr>print_out := (\<lambda>_. Raise KeyboardInterrupt)\<rparr>"
  have st: "outcome_of (startup env_ok) ?w = Return ?h"
    using env_ok_startup [of env_ok 0 ?w]
    by (simp add: env_ok_def initial_world_def cert_at_wrap_def get_local_ip_outcome)
  have st': "outcome_of (startup ?env') ?w = Return ?h"
    using env_ok_startup [of ?env' 0 ?w]
    by (simp add: env_ok_def initial_world_def cert_at_wrap_def get_local_ip_outcome)
  have ki: "serve_forever_out env_ok = Raise KeyboardInterrupt"
    by (simp add: env_ok_def)
  have p60: "print_out env_ok 60 = Return ()"
    by (simp add: env_ok_def)
  have first: "first_nonreturn (statement_outcomes ?env'' ?w) = Raise KeyboardInterrupt"
    by (simp add: statement_outcomes_def)
  have oserr: "serve_forever_out ?env' = Raise OSError"
    by simp
  from only_keyboard_interrupt_handled [of env_ok ?w ?h, THEN conjunct2, THEN conjunct1,
      THEN mp, OF conjI [OF st ki]] p60
  have a: "outcome_of (main env_ok) ?w = Return ()"
    "events_of (main env_ok) ?w = events_of (startup env_ok) ?w @ [Serve_forever 1, Print farewell]"
    by simp_all
  from only_keyboard_interrupt_handled [of ?env' ?w ?h OSError, THEN conjunct2, THEN conjunct2,
      THEN conjunct1, THEN mp] st' oserr
  have b: "outcome_of (main ?env') ?w = Raise OSError"
    by simp
  from only_keyboard_interrupt_handled [of ?env'' ?w, THEN conjunct1] first
  have c: "outcome_of (main ?env'') ?w = Raise KeyboardInterrupt"
    by simp
  from st ki a b c oserr show ?thesis
    by simp
qed

subsection \<open>The server and the startup report\<close>

lemma provision_events_shape:
  "ev \<in> set (events_of (provision_certificate env) w) \<Longrightarrow>
     ev = Path_exists ''cert.pem'' \<or> (\<exists>s. ev = Print s) \<or> ev = System openssl_command"
  by (cases "exists_out env"; cases "print_out env 32"; cases "print_out env 33")
     (auto simp add: provision_certificate_def events_of_bind outcome_of_bind world_of_bind
        os_path_exists_run split: if_splits)

lemma provision_sockets:
  "next_socket (world_of (provision_certificate env) w) = next_socket w"
  "open_sockets (world_of (provision_certificate env) w) = open_sockets w"
  by (simp_all add: provision_world)

lemma main_HTTPServer_init:
  "HTTPServer_init a \<in> set (events_of (main env) w) \<Longrightarrow> a = ('''', 8000)"
  by (auto simp add: main_segments in_events_bind HTTPServer_run ssl_wrap_socket_events
        serve_events
        dest: banner_events_Print provision_events_shape get_local_ip_events_socket
          report_events_Print
        split: if_splits)

lemma main_Wrap_socket:
  assumes "Wrap_socket s c b \<in> set (events_of (main env) w)"
  shows "s = next_socket w" and "c = ''./cert.pem''" and "b"
    and "outcome_of (bring_up env) w
           = Return \<lparr>server_address = (''0.0.0.0'', 8000), socket = next_socket w\<rparr>"
proof -
  have no: "Wrap_socket s c b \<notin> set (events_of (bring_up env) w)"
    by (auto simp add: bring_up_def in_events_bind HTTPServer_run
          dest: banner_events_Print provision_events_shape)
  from assms no obtain h where bu: "outcome_of (bring_up env) w = Return h"
    by (cases "outcome_of (bring_up env) w") (simp_all add: main_bring_up bind_Raise bind_Hang)
  note facts = bring_up_Return [OF bu]
  from bu facts(1) show "outcome_of (bring_up env) w
           = Return \<lparr>server_address = (''0.0.0.0'', 8000), socket = next_socket w\<rparr>"
    by simp
  from assms no facts(1)
  have "s = next_socket w \<and> c = ''./cert.pem'' \<and> b"
    by (auto simp add: main_bring_up bind_Return(2) [OF bu] in_events_bind
          ssl_wrap_socket_events serve_events
          dest: get_local_ip_events_socket report_events_Print split: if_splits)
  then show "s = next_socket w" and "c = ''./cert.pem''" and "b"
    by simp_all
qed

lemma startup_no_Serve_forever:
  "Serve_forever s \<notin> set (events_of (startup env) w)"
  by (auto simp add: startup_def secure_server_def bring_up_def in_events_bind HTTPServer_run
        ssl_wrap_socket_events
        dest: banner_events_Print provision_events_shape get_local_ip_events_socket
          report_events_Print)

lemma main_Serve_forever:
  assumes "Serve_forever s \<in> set (events_of (main env) w)"
  shows "outcome_of (startup env) w
           = Return \<lparr>server_address = (''0.0.0.0'', 8000), socket = Suc (next_socket w)\<rparr>"
    and "s = Suc (next_socket w)"
proof -
  from assms startup_no_Serve_forever [of s env w]
  obtain h where st: "outcome_of (startup env) w = Return h"
    by (cases "outcome_of (startup env) w") (simp_all add: main_startup bind_Raise bind_Hang)
  from secure_server_Return(2) [OF startup_Return(1) [OF st]]
  have h: "h = \<lparr>server_address = (''0.0.0.0'', 8000), socket = Suc (next_socket w)\<rparr>" .
  with st show "outcome_of (startup env) w
           = Return \<lparr>server_address = (''0.0.0.0'', 8000), socket = Suc (next_socket w)\<rparr>"
    by simp
  from assms startup_no_Serve_forever [of s env w] h
  show "s = Suc (next_socket w)"
    by (auto simp add: main_startup bind_Return(2) [OF st] serve_events split: if_splits)
qed

lemma main_events_started:
  assumes "outcome_of (startup env) w = Return h"
  shows "\<exists>ip. outcome_of (get_local_ip env) (world_of (secure_server env) w) = Return ip
      \<and> events_of (main env) w =
          events_of (banner env) w @ events_of (provision_certificate env) w
          @ [HTTPServer_init ('''', 8000), Wrap_socket (next_socket w) ''./cert.pem'' True]
          @ events_of (get_local_ip env) (world_of (secure_server env) w)
          @ map Print (report_lines 8000 ip)
          @ events_of (serve env h) (world_of (startup env) w)"
proof -
  note ss = startup_Return(1) [OF assms]
  from startup_Return(2) [OF assms] obtain ip where
    ip: "outcome_of (get_local_ip env) (world_of (secure_server env) w) = Return ip"
    and ev: "events_of (startup env) w =
               events_of (secure_server env) w
               @ events_of (get_local_ip env) (world_of (secure_server env) w)
               @ map Print (report_lines 8000 ip)"
    by blast
  have "events_of (main env) w =
          events_of (banner env) w @ events_of (provision_certificate env) w
          @ [HTTPServer_init ('''', 8000), Wrap_socket (next_socket w) ''./cert.pem'' True]
          @ events_of (get_local_ip env) (world_of (secure_server env) w)
          @ map Print (report_lines 8000 ip)
          @ events_of (serve env h) (world_of (startup env) w)"
    by (simp add: main_startup bind_Return(2) [OF assms] ev secure_server_Return(5) [OF ss]
          bring_up_Return(9) [OF secure_server_Return(1) [OF ss]])
  with ip show ?thesis
    by blast
qed

lemma env_ok_started:
  "outcome_of (startup env_ok) (initial_world Readable)
     = Return \<lparr>server_address = (''0.0.0.0'', 8000), socket = 1\<rparr>"
  "outcome_of (startup env_ok) (initial_world Absent)
     = Return \<lparr>server_address = (''0.0.0.0'', 8000), socket = 1\<rparr>"
  using env_ok_startup [of env_ok 0 "initial_world Readable"]
    env_ok_startup [of env_ok 0 "initial_world Absent"]
  by (simp_all add: env_ok_def initial_world_def cert_at_wrap_def get_local_ip_outcome)

text \<open>
  Claim C7. On every successful startup, the calls between the address discovery and the
  serve loop are exactly the prints of the report, in order, made with the address that
  \<^verbatim>\<open>get_local_ip\<close> returned; among them are the local URL, the LAN URL with that address and
  the note on the certificate warning. The report changes nothing in the world: its only
  effects are its prints.
\<close>

theorem startup_report_urls:
  assumes "outcome_of (startup env) w = Return h"
  shows "\<exists>ip. outcome_of (get_local_ip env) (world_of (secure_server env) w) = Return ip
      \<and> events_of (main env) w =
          events_of (secure_server env) w
          @ events_of (get_local_ip env) (world_of (secure_server env) w)
          @ map Print (report_lines 8000 ip)
          @ events_of (serve env h) (world_of (startup env) w)
      \<and> ''   https://localhost:8000'' \<in> set (report_lines 8000 ip)
      \<and> ''   https://'' @ ip @ '':8000'' \<in> set (report_lines 8000 ip)
      \<and> [CHR 0x0A, CHR 0xE2, CHR 0x9A, CHR 0xA0, CHR 0xEF, CHR 0xB8, CHR 0x8F]
          @ ''  Note: You'' @ [CHR 0x27]
          @ ''ll need to accept the self-signed certificate warning''
          \<in> set (report_lines 8000 ip)
      \<and> world_of (startup env) w = world_of (get_local_ip env) (world_of (secure_server env) w)
      \<and> (\<forall>w'. world_of (startup_report env 8000 ip) w' = w')"
proof -
  from startup_Return(2) [OF assms] obtain ip where
    ip: "outcome_of (get_local_ip env) (world_of (secure_server env) w) = Return ip"
    and ev: "events_of (startup env) w =
               events_of (secure_server env) w
               @ events_of (get_local_ip env) (world_of (secure_server env) w)
               @ map Print (report_lines 8000 ip)"
    by blast
  have main_ev: "events_of (main env) w =
          events_of (secure_server env) w
          @ events_of (get_local_ip env) (world_of (secure_server env) w)
          @ map Print (report_lines 8000 ip)
          @ events_of (serve env h) (world_of (startup env) w)"
    by (simp add: main_startup bind_Return(2) [OF assms] ev)
  have lines: "''   https://localhost:8000'' \<in> set (report_lines 8000 ip)"
    "''   https://'' @ ip @ '':8000'' \<in> set (report_lines 8000 ip)"
    "[CHR 0x0A, CHR 0xE2, CHR 0x9A, CHR 0xA0, CHR 0xEF, CHR 0xB8, CHR 0x8F]
          @ ''  Note: You'' @ [CHR 0x27]
          @ ''ll need to accept the self-signed certificate warning''
          \<in> set (report_lines 8000 ip)"
    by (simp_all add: report_lines_def str_nat_8000)
  from ip main_ev lines startup_Return(3) [OF assms] show ?thesis
    by (auto simp add: report_world)
qed

theorem startup_report_urls_witness:
  "outcome_of (startup env_ok) (initial_world Readable)
     = Return \<lparr>server_address = (''0.0.0.0'', 8000), socket = 1\<rparr>
   \<and> outcome_of (get_local_ip env_ok) (world_of (secure_server env_ok) (initial_world Readable))
       = Return ''192.168.1.20''
   \<and> Print ''   https://localhost:8000'' \<in> set (events_of (main env_ok) (initial_world Readable))
   \<and> Print ''   https://192.168.1.20:8000''
       \<in> set (events_of (main env_ok) (initial_world Readable))"
proof -
  let ?w = "initial_world Readable"
  have ip: "outcome_of (get_local_ip env_ok) (world_of (secure_server env_ok) ?w)
      = Return ''192.168.1.20''"
    by (simp add: get_local_ip_outcome env_ok_def)
  from startup_report_urls [OF env_ok_started(1)] ip
  have "events_of (main env_ok) ?w =
          events_of (secure_server env_ok) ?w
          @ events_of (get_local_ip env_ok) (world_of (secure_server env_ok) ?w)
          @ map Print (report_lines 8000 ''192.168.1.20'')
          @ events_of (serve env_ok \<lparr>server_address = (''0.0.0.0'', 8000), socket = 1\<rparr>)
              (world_of (startup env_ok) ?w)"
    and "''   https://localhost:8000'' \<in> set (report_lines 8000 ''192.168.1.20'')"
    and "''   https://'' @ ''192.168.1.20'' @ '':8000'' \<in> set (report_lines 8000 ''192.168.1.20'')"
    by auto
  with env_ok_started(1) ip show ?thesis
    by (simp add: image_iff)
qed

subsection \<open>The certificate when the socket is wrapped\<close>

lemma env_no_tool_run:
  "outcome_of (bring_up env_no_tool) (initial_world Absent)
     = Return \<lparr>server_address = (''0.0.0.0'', 8000), socket = 0\<rparr>
   \<and> cert_pem (world_of (bring_up env_no_tool) (initial_world Absent)) = Absent
   \<and> Wrap_socket 0 ''./cert.pem'' True
       \<in> set (events_of (main env_no_tool) (initial_world Absent))
   \<and> outcome_of (main env_no_tool) (initial_world Absent) = Raise FileNotFoundError"
proof -
  let ?w = "initial_world Absent"
  have reached: "returns (print_out env_no_tool 27)" "returns (print_out env_no_tool 28)"
      "generation_reached env_no_tool ?w" "system_out env_no_tool = Return 32512"
    by (simp_all add: env_no_tool_def env_ok_def generation_reached_def initial_world_def)
  note bu = bring_up_reached [OF reached]
  from bu(1) have h: "outcome_of (bring_up env_no_tool) ?w
      = Return \<lparr>server_address = (''0.0.0.0'', 8000), socket = 0\<rparr>"
    by (simp add: env_no_tool_def env_ok_def initial_world_def)
  from bu(3) have c: "cert_pem (world_of (bring_up env_no_tool) ?w) = Absent"
    by (simp add: env_no_tool_def)
  have wr: "outcome_of (ssl_wrap_socket env_no_tool 0 ''./cert.pem'' True)
      (world_of (bring_up env_no_tool) ?w) = Raise FileNotFoundError"
    using c by (simp add: ssl_wrap_socket_outcome)
  have ev: "Wrap_socket 0 ''./cert.pem'' True \<in> set (events_of (main env_no_tool) ?w)"
    by (simp add: main_bring_up bind_Return(2) [OF h] in_events_bind ssl_wrap_socket_events)
  have out: "outcome_of (main env_no_tool) ?w = Raise FileNotFoundError"
    using wr by (simp add: main_bring_up bind_Return(1) [OF h] bind_Raise(1))
  from h c ev out show ?thesis
    by simp
qed

text \<open>
  Claim C8, as stated, fails: \<^verbatim>\<open>main\<close> never checks what the external tool did. Where the
  tool is not installed and no \<^verbatim>\<open>cert.pem\<close> exists, line 41 is reached with the file absent:
  the wrapping is attempted on the missing file and raises.
\<close>

theorem certificate_invariant_counterexample:
  "outcome_of (bring_up env_no_tool) (initial_world Absent)
     = Return \<lparr>server_address = (''0.0.0.0'', 8000), socket = 0\<rparr>
   \<and> cert_pem (world_of (bring_up env_no_tool) (initial_world Absent)) = Absent
   \<and> Wrap_socket 0 ''./cert.pem'' True
       \<in> set (events_of (main env_no_tool) (initial_world Absent))
   \<and> outcome_of (main env_no_tool) (initial_world Absent) = Raise FileNotFoundError"
  by (rule env_no_tool_run)

text \<open>
  Claim C8, amended. When line 41 is reached, \<^verbatim>\<open>cert.pem\<close> is in the state it had at startup
  if it existed then, and otherwise in the state in which the external tool left it. The
  wrapping is attempted in every case; it returns only if the file is then readable, and
  when the file is missing or unreadable \<^verbatim>\<open>main\<close> ends there with an exception.
\<close>

theorem certificate_at_wrap:
  assumes "outcome_of (bring_up env) w = Return h"
  shows "cert_pem (world_of (bring_up env) w)
           = (if cert_pem w = Absent then system_cert env else cert_pem w)
    \<and> Wrap_socket (socket h) ''./cert.pem'' True \<in> set (events_of (main env) w)
    \<and> (returns (outcome_of (ssl_wrap_socket env (socket h) ''./cert.pem'' True)
                   (world_of (bring_up env) w))
         \<longleftrightarrow> cert_pem (world_of (bring_up env) w) = Readable \<and> returns (wrap_socket_out env))
    \<and> (cert_pem (world_of (bring_up env) w) \<noteq> Readable \<longrightarrow>
          raises (outcome_of (main env) w)
          \<and> last (events_of (main env) w) = Wrap_socket (socket h) ''./cert.pem'' True)"
proof -
  let ?w1 = "world_of (bring_up env) w"
  let ?wrap = "ssl_wrap_socket env (socket h) ''./cert.pem'' True"
  from bring_up_Return(2) [OF assms]
  have cert: "cert_pem ?w1 = (if cert_pem w = Absent then system_cert env else cert_pem w)"
    by (simp add: cert_at_wrap_def)
  have ev: "Wrap_socket (socket h) ''./cert.pem'' True \<in> set (events_of (main env) w)"
    by (simp add: main_bring_up bind_Return(2) [OF assms] in_events_bind ssl_wrap_socket_events)
  have ret: "returns (outcome_of ?wrap ?w1)
      \<longleftrightarrow> cert_pem ?w1 = Readable \<and> returns (wrap_socket_out env)"
    by (cases "cert_pem ?w1"; cases "wrap_socket_out env")
       (simp_all add: ssl_wrap_socket_outcome)
  have fails: "raises (outcome_of (main env) w)
      \<and> last (events_of (main env) w) = Wrap_socket (socket h) ''./cert.pem'' True"
    if "cert_pem ?w1 \<noteq> Readable"
  proof -
    from that obtain e where "outcome_of ?wrap ?w1 = Raise e"
      by (cases "cert_pem ?w1") (simp_all add: ssl_wrap_socket_outcome)
    then show ?thesis
      by (simp add: main_bring_up bind_Return(1,2) [OF assms] bind_Raise ssl_wrap_socket_events)
  qed
  from cert ev ret fails show ?thesis
    by blast
qed

theorem certificate_at_wrap_witness:
  "outcome_of (bring_up env_ok) (initial_world Absent)
     = Return \<lparr>server_address = (''0.0.0.0'', 8000), socket = 0\<rparr>
   \<and> cert_pem (world_of (bring_up env_ok) (initial_world Absent)) = Readable
   \<and> Wrap_socket 0 ''./cert.pem'' True \<in> set (events_of (main env_ok) (initial_world Absent))
   \<and> returns (outcome_of (ssl_wrap_socket env_ok 0 ''./cert.pem'' True)
        (world_of (bring_up env_ok) (initial_world Absent)))"
proof -
  let ?w = "initial_world Absent"
  have reached: "returns (print_out env_ok 27)" "returns (print_out env_ok 28)"
      "generation_reached env_ok ?w" "system_out env_ok = Return 0"
    by (simp_all add: env_ok_def generation_reached_def initial_world_def)
  from bring_up_reached(1) [OF reached]
  have h: "outcome_of (bring_up env_ok) ?w = Return \<lparr>server_address = (''0.0.0.0'', 8000), socket = 0\<rparr>"
    by (simp add: env_ok_def initial_world_def)
  from certificate_at_wrap [OF h] h show ?thesis
    by (simp add: env_ok_def initial_world_def)
qed

subsection \<open>The order of the startup\<close>









lemma main_HTTPServer_init_reached:
  assumes "HTTPServer_init a \<in> set (events_of (main env) w)"
  shows "outcome_of (banner env) w = Return ()"
    and "outcome_of (provision_certificate env) w = Return ()"
proof -
  have nb: "HTTPServer_init a \<notin> set (events_of (banner env) w)"
    by (auto dest: banner_events_Print)
  have np: "HTTPServer_init a \<notin> set (events_of (provision_certificate env) w)"
    by (auto dest: provision_events_shape)
  from assms nb show b: "outcome_of (banner env) w = Return ()"
    by (cases "outcome_of (banner env) w")
       (simp_all add: main_segments bind_Raise bind_Hang)
  from assms nb np show "outcome_of (provision_certificate env) w = Return ()"
    by (cases "outcome_of (provision_certificate env) w")
       (simp_all add: main_segments bind_Return [OF b] bind_Raise bind_Hang banner_world)
qed





subsection \<open>The server that is constructed, wrapped and served\<close>

lemma statement_outcomes_split:
  "statement_outcomes env w =
     before_serving env w
     @ [if serve_forever_out env = Raise KeyboardInterrupt then print_out env 60
        else serve_forever_out env]"
  by (simp add: statement_outcomes_def before_serving_def before_construction_def)

lemma void_Return: "void x = Return () \<longleftrightarrow> returns x"
  by (cases x) simp_all

lemma first_nonreturn_Return_append:
  "first_nonreturn (xs @ ys) = Return () \<longleftrightarrow>
     first_nonreturn xs = Return () \<and> first_nonreturn ys = Return ()"
  by (cases "first_nonreturn xs") (simp_all add: first_nonreturn_append)

lemma before_construction_Return:
  "first_nonreturn (before_construction env w) = Return () \<longleftrightarrow>
     outcome_of (banner env) w = Return () \<and> outcome_of (provision_certificate env) w = Return ()"
proof -
  have "before_construction env w =
      [print_out env 27, print_out env 28]
      @ (exists_out env #
          (if cert_pem w = Absent
           then [print_out env 32, print_out env 33, void (system_out env)] else []))"
    by (simp add: before_construction_def)
  then show ?thesis
    by (simp only: first_nonreturn_Return_append banner_outcome_first provision_outcome)
qed

lemma bring_up_void:
  "void (outcome_of (bring_up env) w)
     = first_nonreturn (before_construction env w @ [httpserver_out env])"
  using bring_up_outcome [of env w] by (simp add: before_construction_def)

lemma main_HTTPServer_init_iff:
  "HTTPServer_init a \<in> set (events_of (main env) w) \<longleftrightarrow>
     a = ('''', 8000) \<and> first_nonreturn (before_construction env w) = Return ()"
proof
  assume init: "HTTPServer_init a \<in> set (events_of (main env) w)"
  from main_HTTPServer_init [OF init] main_HTTPServer_init_reached [OF init]
  show "a = ('''', 8000) \<and> first_nonreturn (before_construction env w) = Return ()"
    by (simp add: before_construction_Return)
next
  assume "a = ('''', 8000) \<and> first_nonreturn (before_construction env w) = Return ()"
  then have a: "a = ('''', 8000)" and b: "outcome_of (banner env) w = Return ()"
    and p: "outcome_of (provision_certificate env) w = Return ()"
    by (simp_all add: before_construction_Return)
  show "HTTPServer_init a \<in> set (events_of (main env) w)"
    by (simp add: a main_segments bind_Return(2) [OF b] banner_world in_events_bind p
          HTTPServer_run)
qed

lemma main_Wrap_socket_iff:
  "Wrap_socket s c b \<in> set (events_of (main env) w) \<longleftrightarrow>
     s = next_socket w \<and> c = ''./cert.pem'' \<and> b
     \<and> first_nonreturn (before_construction env w @ [httpserver_out env]) = Return ()"
proof
  assume wr: "Wrap_socket s c b \<in> set (events_of (main env) w)"
  from main_Wrap_socket [OF wr] bring_up_void [of env w]
  show "s = next_socket w \<and> c = ''./cert.pem'' \<and> b
     \<and> first_nonreturn (before_construction env w @ [httpserver_out env]) = Return ()"
    by simp
next
  assume r: "s = next_socket w \<and> c = ''./cert.pem'' \<and> b
     \<and> first_nonreturn (before_construction env w @ [httpserver_out env]) = Return ()"
  with bring_up_void [of env w] obtain h where bu: "outcome_of (bring_up env) w = Return h"
    by (cases "outcome_of (bring_up env) w") simp_all
  from bring_up_Return(1) [OF bu] r
  show "Wrap_socket s c b \<in> set (events_of (main env) w)"
    by (simp add: main_bring_up bind_Return(2) [OF bu] in_events_bind ssl_wrap_socket_events)
qed

lemma startup_bring_up:
  "startup env =
     bind_prog (bring_up env) (\<lambda>httpd.
     bind_prog (ssl_wrap_socket env (socket httpd) ''./cert.pem'' True) (\<lambda>s.
     bind_prog (get_local_ip env) (\<lambda>local_ip.
     bind_prog (startup_report env 8000 local_ip) (\<lambda>_.
     return_prog (httpd\<lparr>socket := s\<rparr>)))))"
  unfolding startup_def secure_server_def
  by (simp add: bind_prog_assoc bind_prog_return_left)

lemma startup_tail_void:
  "void (outcome_of
     (bind_prog (ssl_wrap_socket env s ''./cert.pem'' True) (\<lambda>s.
      bind_prog (get_local_ip env) (\<lambda>ip.
      bind_prog (startup_report env 8000 ip) (\<lambda>_. return_prog (h\<lparr>socket := s\<rparr>))))) w) =
     first_nonreturn (
       (case cert_pem w of
           Absent \<Rightarrow> Raise FileNotFoundError
         | Unreadable \<Rightarrow> Raise PermissionError
         | Readable \<Rightarrow> wrap_socket_out env)
       # void (outcome_of (get_local_ip env) w0)
       # map (print_out env) report_source_lines)"
proof -
  have report: "void (outcome_of
      (bind_prog (startup_report env 8000 ip) (\<lambda>_. return_prog h')) w')
      = first_nonreturn (map (print_out env) report_source_lines)" for ip h' w'
    by (cases "first_nonreturn (map (print_out env) report_source_lines)")
       (simp_all add: outcome_of_bind report_outcome)
  have resolve: "void (outcome_of
      (bind_prog (get_local_ip env) (\<lambda>ip.
       bind_prog (startup_report env 8000 ip) (\<lambda>_. return_prog h'))) w')
      = first_nonreturn (void (outcome_of (get_local_ip env) w0)
          # map (print_out env) report_source_lines)" for h' w'
    unfolding get_local_ip_outcome_world [of env w0 w']
    by (cases "outcome_of (get_local_ip env) w'")
       (simp_all add: bind_Return bind_Raise bind_Hang report del: first_nonreturn.simps
          add: first_nonreturn_Cons)
  show ?thesis
    by (cases "cert_pem w"; cases "wrap_socket_out env")
       (simp_all add: outcome_of_bind [of "ssl_wrap_socket env s ''./cert.pem'' True"]
          ssl_wrap_socket_outcome resolve first_nonreturn_Cons del: first_nonreturn.simps)
qed

lemma startup_void:
  "void (outcome_of (startup env) w) = first_nonreturn (before_serving env w)"
proof -
  let ?rest = "(case cert_at_wrap env w of
           Absent \<Rightarrow> Raise FileNotFoundError
         | Unreadable \<Rightarrow> Raise PermissionError
         | Readable \<Rightarrow> wrap_socket_out env)
       # void (outcome_of (get_local_ip env) w)
       # map (print_out env) report_source_lines"
  have bs: "before_serving env w
      = (before_construction env w @ [httpserver_out env]) @ ?rest"
    by (simp add: before_serving_def)
  show ?thesis
  proof (cases "outcome_of (bring_up env) w")
    case (Return h)
    with bring_up_void [of env w]
    have "first_nonreturn (before_construction env w @ [httpserver_out env]) = Return ()"
      by simp
    then have "first_nonreturn (before_serving env w) = first_nonreturn ?rest"
      unfolding bs first_nonreturn_append by simp
    moreover have "void (outcome_of (startup env) w) = first_nonreturn ?rest"
      unfolding startup_bring_up bind_Return(1) [OF Return] startup_tail_void [of env _ _ _ w]
        bring_up_Return(2) [OF Return] ..
    ultimately show ?thesis by simp
  next
    case (Raise e)
    with bring_up_void [of env w]
    have "first_nonreturn (before_construction env w @ [httpserver_out env]) = Raise e"
      by simp
    then have "first_nonreturn (before_serving env w) = Raise e"
      unfolding bs first_nonreturn_append by simp
    then show ?thesis
      by (simp add: startup_bring_up bind_Raise(1) [OF Raise])
  next
    case Hang
    with bring_up_void [of env w]
    have "first_nonreturn (before_construction env w @ [httpserver_out env]) = Hang"
      by simp
    then have "first_nonreturn (before_serving env w) = Hang"
      unfolding bs first_nonreturn_append by simp
    then show ?thesis
      by (simp add: startup_bring_up bind_Hang(1) [OF Hang])
  qed
qed

lemma startup_Return_iff:
  "first_nonreturn (before_serving env w) = Return () \<longleftrightarrow>
     outcome_of (startup env) w
       = Return \<lparr>server_address = (''0.0.0.0'', 8000), socket = Suc (next_socket w)\<rparr>"
proof
  assume "first_nonreturn (before_serving env w) = Return ()"
  with startup_void [of env w] obtain h where st: "outcome_of (startup env) w = Return h"
    by (cases "outcome_of (startup env) w") simp_all
  from secure_server_Return(2) [OF startup_Return(1) [OF st]] st
  show "outcome_of (startup env) w
       = Return \<lparr>server_address = (''0.0.0.0'', 8000), socket = Suc (next_socket w)\<rparr>"
    by simp
next
  assume "outcome_of (startup env) w
       = Return \<lparr>server_address = (''0.0.0.0'', 8000), socket = Suc (next_socket w)\<rparr>"
  with startup_void [of env w] show "first_nonreturn (before_serving env w) = Return ()"
    by simp
qed

lemma main_Serve_forever_iff:
  "Serve_forever s \<in> set (events_of (main env) w) \<longleftrightarrow>
     s = Suc (next_socket w) \<and> first_nonreturn (before_serving env w) = Return ()"
proof
  assume sv: "Serve_forever s \<in> set (events_of (main env) w)"
  from main_Serve_forever [OF sv]
  show "s = Suc (next_socket w) \<and> first_nonreturn (before_serving env w) = Return ()"
    by (simp add: startup_Return_iff)
next
  assume "s = Suc (next_socket w) \<and> first_nonreturn (before_serving env w) = Return ()"
  then have s: "s = Suc (next_socket w)"
    and st: "outcome_of (startup env) w
       = Return \<lparr>server_address = (''0.0.0.0'', 8000), socket = Suc (next_socket w)\<rparr>"
    by (simp_all add: startup_Return_iff)
  show "Serve_forever s \<in> set (events_of (main env) w)"
    by (simp add: s main_startup bind_Return(2) [OF st] serve_events)
qed

lemma ssl_wrap_socket_Return_world:
  assumes "outcome_of (ssl_wrap_socket env s c b) w = Return s'"
  shows "s' = next_socket w"
    and "open_sockets (world_of (ssl_wrap_socket env s c b) w)
           = next_socket w # removeAll s (open_sockets w)"
    and "next_socket (world_of (ssl_wrap_socket env s c b) w) = Suc (next_socket w)"
  using assms
  by (cases "cert_pem w"; cases "wrap_socket_out env";
      simp add: outcome_of_def world_of_def ssl_wrap_socket_def)+

lemma get_local_ip_keeps_open:
  assumes "s \<in> set (open_sockets w)" and "s \<noteq> next_socket w"
  shows "s \<in> set (open_sockets (world_of (get_local_ip env) w))"
  using assms
  by (cases "socket_out env"; cases "connect_out env"; cases "getsockname_out env";
      cases "close_out env")
     (simp_all add: get_local_ip_def run_try run_bind socket_socket_run socket_close_run Let_def)

lemma startup_socket_open:
  assumes "outcome_of (startup env) w = Return h"
  shows "socket h \<in> set (open_sockets (world_of (startup env) w))"
proof -
  note ss = startup_Return(1) [OF assms]
  note bu = secure_server_Return(1) [OF ss]
  let ?w1 = "world_of (bring_up env) w"
  let ?wrap = "ssl_wrap_socket env (next_socket w) ''./cert.pem'' True"
  have "returns (outcome_of ?wrap ?w1)"
    using secure_server_Return(3,4) [OF ss] bring_up_Return(2) [OF bu]
    by (simp add: ssl_wrap_socket_outcome)
  then obtain s' where wr: "outcome_of ?wrap ?w1 = Return s'"
    by (cases "outcome_of ?wrap ?w1") simp_all
  note ww = ssl_wrap_socket_Return_world [OF wr]
  have w2: "world_of (secure_server env) w = world_of ?wrap ?w1"
    by (rule secure_server_Return(6) [OF ss])
  have "Suc (next_socket w) \<in> set (open_sockets (world_of (secure_server env) w))"
    and "Suc (next_socket w) \<noteq> next_socket (world_of (secure_server env) w)"
    unfolding w2 ww(2) ww(3) bring_up_Return(3) [OF bu] by simp_all
  then have "Suc (next_socket w)
      \<in> set (open_sockets (world_of (get_local_ip env) (world_of (secure_server env) w)))"
    by (rule get_local_ip_keeps_open)
  with secure_server_Return(2) [OF ss] startup_Return(3) [OF assms] show ?thesis
    by simp
qed

text \<open>
  Claim C6. The script is \<^verbatim>\<open>main\<close>, whatever its command line. \<^verbatim>\<open>main\<close> constructs its server
  exactly when the statements before line 38 return, and then at the empty host (all
  interfaces) and port 8000, whatever the environment; it wraps that server's socket,
  server side with certificate file \<^verbatim>\<open>./cert.pem\<close>, exactly when the construction also
  returned; and it serves, on the wrapped socket, exactly when every statement before line
  58 returned. In that case the server object is bound at 0.0.0.0 port 8000, its wrapped
  socket is open, and construction, wrapping and serving occur once each, in this order.
\<close>

theorem fixed_port_and_tls:
  "script argv env = main env
   \<and> (HTTPServer_init a \<in> set (events_of (main env) w) \<longleftrightarrow>
        a = ('''', 8000) \<and> first_nonreturn (before_construction env w) = Return ())
   \<and> (Wrap_socket s c b \<in> set (events_of (main env) w) \<longleftrightarrow>
        s = next_socket w \<and> c = ''./cert.pem'' \<and> b
        \<and> first_nonreturn (before_construction env w @ [httpserver_out env]) = Return ())
   \<and> (Serve_forever s' \<in> set (events_of (main env) w) \<longleftrightarrow>
        s' = Suc (next_socket w) \<and> first_nonreturn (before_serving env w) = Return ())
   \<and> (first_nonreturn (before_serving env w) = Return () \<longrightarrow>
        outcome_of (startup env) w
          = Return \<lparr>server_address = (''0.0.0.0'', 8000), socket = Suc (next_socket w)\<rparr>
        \<and> Suc (next_socket w) \<in> set (open_sockets (world_of (startup env) w))
        \<and> (\<exists>pre mid post. events_of (main env) w =
              pre @ [HTTPServer_init ('''', 8000),
                     Wrap_socket (next_socket w) ''./cert.pem'' True]
              @ mid @ Serve_forever (Suc (next_socket w)) # post
              \<and> (\<forall>a'. HTTPServer_init a' \<notin> set pre \<union> set mid \<union> set post)
              \<and> (\<forall>s'' c' b'. Wrap_socket s'' c' b' \<notin> set pre \<union> set mid \<union> set post)
              \<and> (\<forall>s''. Serve_forever s'' \<notin> set pre \<union> set mid \<union> set post)))"
proof (intro conjI impI)
  show "script argv env = main env"
    by (simp add: script_def)
next
  show "HTTPServer_init a \<in> set (events_of (main env) w) \<longleftrightarrow>
        a = ('''', 8000) \<and> first_nonreturn (before_construction env w) = Return ()"
    by (rule main_HTTPServer_init_iff)
next
  show "Wrap_socket s c b \<in> set (events_of (main env) w) \<longleftrightarrow>
        s = next_socket w \<and> c = ''./cert.pem'' \<and> b
        \<and> first_nonreturn (before_construction env w @ [httpserver_out env]) = Return ()"
    by (rule main_Wrap_socket_iff)
next
  show "Serve_forever s' \<in> set (events_of (main env) w) \<longleftrightarrow>
        s' = Suc (next_socket w) \<and> first_nonreturn (before_serving env w) = Return ()"
    by (rule main_Serve_forever_iff)
next
  assume ok: "first_nonreturn (before_serving env w) = Return ()"
  let ?h = "\<lparr>server_address = (''0.0.0.0'', 8000), socket = Suc (next_socket w)\<rparr>"
  from ok show st: "outcome_of (startup env) w = Return ?h"
    by (simp add: startup_Return_iff)
  from startup_socket_open [OF st]
  show "Suc (next_socket w) \<in> set (open_sockets (world_of (startup env) w))"
    by simp
  from main_events_started [OF st] obtain ip where
    ev: "events_of (main env) w =
          events_of (banner env) w @ events_of (provision_certificate env) w
          @ [HTTPServer_init ('''', 8000), Wrap_socket (next_socket w) ''./cert.pem'' True]
          @ events_of (get_local_ip env) (world_of (secure_server env) w)
          @ map Print (report_lines 8000 ip)
          @ events_of (serve env ?h) (world_of (startup env) w)"
    by blast
  let ?pre = "events_of (banner env) w @ events_of (provision_certificate env) w"
  let ?mid = "events_of (get_local_ip env) (world_of (secure_server env) w)
         @ map Print (report_lines 8000 ip)"
  let ?post = "if serve_forever_out env = Raise KeyboardInterrupt then [Print farewell] else []"
  have dec: "events_of (main env) w =
      ?pre @ [HTTPServer_init ('''', 8000), Wrap_socket (next_socket w) ''./cert.pem'' True]
      @ ?mid @ Serve_forever (Suc (next_socket w)) # ?post"
    unfolding ev serve_events by simp
  have pre: "(\<exists>t. ev = Print t) \<or> ev = Path_exists ''cert.pem'' \<or> ev = System openssl_command"
    if "ev \<in> set ?pre" for ev
    using that by (auto dest: banner_events_Print provision_events_shape)
  have mid: "(\<exists>t. ev = Print t) \<or> resolves ev" if "ev \<in> set ?mid" for ev
    using that by (auto dest: get_local_ip_events_socket)
  have post: "ev = Print farewell" if "ev \<in> set ?post" for ev
    using that by (simp split: if_splits)
  have no_init: "HTTPServer_init a' \<notin> set ?pre \<union> set ?mid \<union> set ?post" for a'
    using pre [of "HTTPServer_init a'"] mid [of "HTTPServer_init a'"]
      post [of "HTTPServer_init a'"]
    by (simp only: Un_iff) auto
  have no_wrap: "Wrap_socket s'' c' b' \<notin> set ?pre \<union> set ?mid \<union> set ?post" for s'' c' b'
    using pre [of "Wrap_socket s'' c' b'"] mid [of "Wrap_socket s'' c' b'"]
      post [of "Wrap_socket s'' c' b'"]
    by (simp only: Un_iff) auto
  have no_serve: "Serve_forever s'' \<notin> set ?pre \<union> set ?mid \<union> set ?post" for s''
    using pre [of "Serve_forever s''"] mid [of "Serve_forever s''"]
      post [of "Serve_forever s''"]
    by (simp only: Un_iff) auto
  from no_init no_wrap no_serve
  have once: "(\<forall>a'. HTTPServer_init a' \<notin> set ?pre \<union> set ?mid \<union> set ?post)
      \<and> (\<forall>s'' c' b'. Wrap_socket s'' c' b' \<notin> set ?pre \<union> set ?mid \<union> set ?post)
      \<and> (\<forall>s''. Serve_forever s'' \<notin> set ?pre \<union> set ?mid \<union> set ?post)"
    by blast
  from dec once
  show "\<exists>pre mid post. events_of (main env) w =
              pre @ [HTTPServer_init ('''', 8000),
                     Wrap_socket (next_socket w) ''./cert.pem'' True]
              @ mid @ Serve_forever (Suc (next_socket w)) # post
              \<and> (\<forall>a'. HTTPServer_init a' \<notin> set pre \<union> set mid \<union> set post)
              \<and> (\<forall>s'' c' b'. Wrap_socket s'' c' b' \<notin> set pre \<union> set mid \<union> set post)
              \<and> (\<forall>s''. Serve_forever s'' \<notin> set pre \<union> set mid \<union> set post)"
    by blast
qed

theorem fixed_port_and_tls_witness:
  "script [''--port'', ''9000''] env_ok = main env_ok
   \<and> first_nonreturn (before_serving env_ok (initial_world Readable)) = Return ()
   \<and> HTTPServer_init ('''', 8000) \<in> set (events_of (main env_ok) (initial_world Readable))
   \<and> Wrap_socket 0 ''./cert.pem'' True \<in> set (events_of (main env_ok) (initial_world Readable))
   \<and> Serve_forever 1 \<in> set (events_of (main env_ok) (initial_world Readable))
   \<and> outcome_of (startup env_ok) (initial_world Readable)
       = Return \<lparr>server_address = (''0.0.0.0'', 8000), socket = 1\<rparr>
   \<and> 1 \<in> set (open_sockets (world_of (startup env_ok) (initial_world Readable)))"
proof -
  let ?w = "initial_world Readable"
  have ok: "first_nonreturn (before_serving env_ok ?w) = Return ()"
    by (simp add: before_serving_def before_construction_def cert_at_wrap_def
          get_local_ip_outcome report_source_lines_def env_ok_def initial_world_def)
  have ok': "first_nonreturn (before_construction env_ok ?w) = Return ()"
    "first_nonreturn (before_construction env_ok ?w @ [httpserver_out env_ok]) = Return ()"
    by (simp_all add: before_construction_def env_ok_def initial_world_def)
  note inst = fixed_port_and_tls [of "[''--port'', ''9000'']" env_ok "('''', 8000)" ?w
      0 "''./cert.pem''" True 1]
  have n0: "next_socket ?w = 0"
    by (simp add: initial_world_def)
  from inst have a: "script [''--port'', ''9000''] env_ok = main env_ok"
    by (rule conjunct1)
  from inst [THEN conjunct2, THEN conjunct1] ok'(1)
  have b: "HTTPServer_init ('''', 8000) \<in> set (events_of (main env_ok) ?w)"
    by simp
  from inst [THEN conjunct2, THEN conjunct2, THEN conjunct1] ok'(2) n0
  have c: "Wrap_socket 0 ''./cert.pem'' True \<in> set (events_of (main env_ok) ?w)"
    by simp
  from inst [THEN conjunct2, THEN conjunct2, THEN conjunct2, THEN conjunct1] ok n0
  have d: "Serve_forever 1 \<in> set (events_of (main env_ok) ?w)"
    by simp
  from inst [THEN conjunct2, THEN conjunct2, THEN conjunct2, THEN conjunct2, THEN mp, OF ok,
      THEN conjunct1] n0
  have e1: "outcome_of (startup env_ok) ?w
       = Return \<lparr>server_address = (''0.0.0.0'', 8000), socket = 1\<rparr>"
    by simp
  from inst [THEN conjunct2, THEN conjunct2, THEN conjunct2, THEN conjunct2, THEN mp, OF ok,
      THEN conjunct2, THEN conjunct1] n0
  have e2: "1 \<in> set (open_sockets (world_of (startup env_ok) ?w))"
    by simp
  from a ok b c d e1 e2 show ?thesis
    by simp
qed

end
